theory Spec2Isabelle
  imports Main "HOL-Library.Word" "HOL-Library.FSet"
begin

section \<open>JavaScript strings\<close>

text \<open>
  A JavaScript string is a sequence of UTF-16 code units. Identifiers and tokens are only
  compared for equality and emptiness; message texts are trimmed, which depends on the
  exact set of white-space code units.
\<close>

type_synonym js_string = "16 word list"

definition js :: "string \<Rightarrow> js_string" where
  "js s = map (\<lambda>c. of_nat (of_char c)) s"

text \<open>
  The code units \<open>String.prototype.trim\<close> removes and the regular expression class
  \<open>\s\<close> matches: ECMAScript WhiteSpace and LineTerminator.
\<close>

definition isWhiteSpace :: "16 word \<Rightarrow> bool" where
  "isWhiteSpace c =
     (c = 0x0009 \<or> c = 0x000A \<or> c = 0x000B \<or> c = 0x000C \<or> c = 0x000D \<or> c = 0x0020 \<or>
      c = 0x00A0 \<or> c = 0x1680 \<or> (0x2000 \<le> c \<and> c \<le> 0x200A) \<or> c = 0x2028 \<or>
      c = 0x2029 \<or> c = 0x202F \<or> c = 0x205F \<or> c = 0x3000 \<or> c = 0xFEFF)"

definition trim :: "js_string \<Rightarrow> js_string" where
  "trim s = rev (dropWhile isWhiteSpace (rev (dropWhile isWhiteSpace s)))"

text \<open>\<open>!v\<close> for a value that is \<open>undefined\<close> or a string.\<close>

definition falsy :: "js_string option \<Rightarrow> bool" where
  "falsy v = (case v of None \<Rightarrow> True | Some s \<Rightarrow> s = [])"

text \<open>\<open>a || b\<close> for two values that are \<open>undefined\<close> or strings.\<close>

definition js_or :: "js_string option \<Rightarrow> js_string option \<Rightarrow> js_string option" where
  "js_or a b = (if falsy a then b else a)"

text \<open>An exception thrown, or a promise rejected, inside a \<open>try\<close> block.\<close>

datatype js_exception = Thrown

section \<open>Token blacklist (server.mjs, "Auth helpers, blacklist")\<close>

type_synonym token = js_string

text \<open>
  The optional Redis client is not code of the repository. Its two commands used by the
  server are modelled by their contract, and whether a command succeeds is an input of
  the model (the flag \<open>ok\<close>: the connection may be lost, the command may be refused).
  \<open>SETEX key seconds value\<close>, when it succeeds, stores the value together with the
  instant at which it expires; a time-to-live that is not positive is refused. The server
  does not await the command and swallows every failure (\<open>.catch(() => {})\<close> inside a
  \<open>try\<close> with an empty \<open>catch\<close>), so a failed SETEX leaves the store as it was and is
  not reported; \<open>ok\<close> stands for a command that the store has applied before the next
  lookup. \<open>GET key\<close>, when it succeeds, answers nil once the expiry instant is reached;
  the server awaits it, so a failed GET is an exception in the caller. Instants are
  milliseconds, as \<open>Date.now()\<close>.
\<close>

type_synonym redis_store = "js_string \<rightharpoonup> (js_string \<times> int)"

definition redis_setex ::
  "bool \<Rightarrow> js_string \<Rightarrow> int \<Rightarrow> js_string \<Rightarrow> int \<Rightarrow> redis_store \<Rightarrow> redis_store" where
  "redis_setex ok key seconds v now store =
     (if \<not> ok \<or> seconds \<le> 0 then store else store(key \<mapsto> (v, now + seconds * 1000)))"

definition redis_get :: "bool \<Rightarrow> js_string \<Rightarrow> int \<Rightarrow> redis_store \<Rightarrow> js_exception + js_string option" where
  "redis_get ok key now store =
     (if \<not> ok then Inl Thrown
      else (case store key of
              None \<Rightarrow> Inr None
            | Some (v, expires) \<Rightarrow> if now < expires then Inr (Some v) else Inr None))"

record blacklist_state =
  useRedis :: bool
  redisClient :: redis_store
  inMemoryBlacklist :: "token \<rightharpoonup> int"

text \<open>
  \<open>blacklistToken(token, ttlSeconds)\<close>, called at instant \<open>now\<close>; \<open>redisOk\<close> tells
  whether the SETEX it may issue succeeds.
\<close>

definition blacklistToken :: "bool \<Rightarrow> int \<Rightarrow> token \<Rightarrow> int \<Rightarrow> blacklist_state \<Rightarrow> blacklist_state" where
  "blacklistToken redisOk now token ttlSeconds st =
     (if token = [] then st
      else if useRedis st then
        st\<lparr>redisClient :=
             redis_setex redisOk (js ''blacklist:'' @ token) ttlSeconds (js ''1'') now (redisClient st)\<rparr>
      else
        (let exp = now + ttlSeconds * 1000
         in st\<lparr>inMemoryBlacklist := (inMemoryBlacklist st)(token \<mapsto> exp)\<rparr>))"

text \<open>The body of the \<open>setInterval\<close> callback, run at instant \<open>now\<close>.\<close>

definition sweep :: "int \<Rightarrow> blacklist_state \<Rightarrow> blacklist_state" where
  "sweep now st =
     st\<lparr>inMemoryBlacklist :=
          (\<lambda>t. case inMemoryBlacklist st t of
                 None \<Rightarrow> None
               | Some exp \<Rightarrow> if exp \<le> now then None else Some exp)\<rparr>"

fun run_sweeps :: "int list \<Rightarrow> blacklist_state \<Rightarrow> blacklist_state" where
  "run_sweeps [] st = st"
| "run_sweeps (now # later) st = run_sweeps later (sweep now st)"

text \<open>
  The revocation check, written inline in \<open>auth\<close>, in the socket middleware and in the
  upload route: \<open>await redisClient.get(`blacklist:${token}`)\<close> being truthy, or
  \<open>inMemoryBlacklist.has(token)\<close>. \<open>redisOk\<close> tells whether the GET it may issue
  succeeds; when it does not, the check throws.
\<close>

definition isRevoked :: "bool \<Rightarrow> int \<Rightarrow> token \<Rightarrow> blacklist_state \<Rightarrow> js_exception + bool" where
  "isRevoked redisOk now token st =
     (if useRedis st then
        (case redis_get redisOk (js ''blacklist:'' @ token) now (redisClient st) of
           Inl e \<Rightarrow> Inl e
         | Inr None \<Rightarrow> Inr False
         | Inr (Some black) \<Rightarrow> Inr (black \<noteq> []))
      else Inr (inMemoryBlacklist st token \<noteq> None))"

section \<open>Authentication (server.mjs, "AUTH MIDDLEWARE" and "Socket.IO auth")\<close>

record payload =
  p_id :: js_string
  p_collegeId :: js_string

text \<open>
  \<open>jwt.verify(token, JWT_SECRET)\<close> belongs to the jsonwebtoken package: it is a parameter
  of the model, \<open>None\<close> when it throws (bad signature, malformed or expired token).
\<close>

type_synonym verifier = "token \<Rightarrow> payload option"

text \<open>
  The \<open>accessToken\<close> cookie of a request, after the regular expression match and
  \<open>decodeURIComponent\<close>: absent, not decodable (\<open>URIError\<close>), or a value.
\<close>

datatype cookie_token = CookieAbsent | CookieMalformed | CookieToken token

record request =
  authorization :: "js_string option"
  accessToken :: cookie_token

definition extractTokenFromRequest :: "request \<Rightarrow> js_exception + token option" where
  "extractTokenFromRequest req =
     (let header = (case authorization req of None \<Rightarrow> [] | Some h \<Rightarrow> h);
          tokenFromHeader = (if take 7 header = js ''Bearer '' then Some (drop 7 header) else None)
      in if \<not> falsy tokenFromHeader then Inr tokenFromHeader
         else (case accessToken req of
                 CookieAbsent \<Rightarrow> Inr None
               | CookieMalformed \<Rightarrow> Inl Thrown
               | CookieToken t \<Rightarrow> Inr (Some t)))"

datatype auth_error = MissingToken | TokenRevoked | InvalidToken

text \<open>
  The middleware \<open>auth\<close>. Everything after the extraction of the token runs inside one
  \<open>try\<close>: an exception of the extraction, of the Redis lookup or of \<open>jwt.verify\<close> is
  answered "Invalid or expired token".
\<close>

definition auth :: "verifier \<Rightarrow> bool \<Rightarrow> int \<Rightarrow> blacklist_state \<Rightarrow> request \<Rightarrow> auth_error + payload" where
  "auth jwt_verify redisOk now st req =
     (case extractTokenFromRequest req of
        Inl Thrown \<Rightarrow> Inl InvalidToken
      | Inr tok \<Rightarrow>
          if falsy tok then Inl MissingToken
          else (case tok of
                  None \<Rightarrow> Inl MissingToken
                | Some token \<Rightarrow>
                    (case isRevoked redisOk now token st of
                       Inl Thrown \<Rightarrow> Inl InvalidToken
                     | Inr True \<Rightarrow> Inl TokenRevoked
                     | Inr False \<Rightarrow>
                         (case jwt_verify token of
                            None \<Rightarrow> Inl InvalidToken
                          | Some p \<Rightarrow> Inr p))))"

text \<open>\<open>POST /logout\<close>: the state change only (the cookie is cleared in every case).\<close>

definition logout :: "bool \<Rightarrow> int \<Rightarrow> request \<Rightarrow> blacklist_state \<Rightarrow> js_exception + blacklist_state" where
  "logout redisOk now req st =
     (case extractTokenFromRequest req of
        Inl Thrown \<Rightarrow> Inl Thrown
      | Inr tok \<Rightarrow>
          if falsy tok then Inr st
          else (case tok of
                  None \<Rightarrow> Inr st
                | Some token \<Rightarrow> Inr (blacklistToken redisOk now token (24 * 60 * 60) st)))"

record handshake =
  auth_token :: "js_string option"
  headers_authorization :: "js_string option"

text \<open>\<open>raw.replace(/^Bearer\s+/i, "")\<close>\<close>

definition isBearerWord :: "js_string \<Rightarrow> bool" where
  "isBearerWord w =
     (length w = 6 \<and>
      (w ! 0 = 0x42 \<or> w ! 0 = 0x62) \<and> (w ! 1 = 0x45 \<or> w ! 1 = 0x65) \<and>
      (w ! 2 = 0x41 \<or> w ! 2 = 0x61) \<and> (w ! 3 = 0x52 \<or> w ! 3 = 0x72) \<and>
      (w ! 4 = 0x45 \<or> w ! 4 = 0x65) \<and> (w ! 5 = 0x52 \<or> w ! 5 = 0x72))"

definition stripBearer :: "js_string \<Rightarrow> js_string" where
  "stripBearer raw =
     (if isBearerWord (take 6 raw) \<and> drop 6 raw \<noteq> [] \<and> isWhiteSpace (hd (drop 6 raw))
      then dropWhile isWhiteSpace (drop 6 raw) else raw)"

datatype socket_error = NoTokenProvided | SocketTokenRevoked | SocketInvalidToken

text \<open>
  \<open>socket.handshake.auth?.token || socket.handshake.headers?.authorization || ""\<close>,
  with the bearer prefix removed.
\<close>

definition handshake_token :: "handshake \<Rightarrow> token" where
  "handshake_token hs =
     (let raw = (case js_or (js_or (auth_token hs) (headers_authorization hs)) (Some []) of
                   None \<Rightarrow> [] | Some r \<Rightarrow> r)
      in stripBearer raw)"

text \<open>
  The middleware of \<open>io.use\<close>. Its whole body is one \<open>try\<close>: an exception of the Redis
  lookup or of \<open>jwt.verify\<close> is answered "Invalid token".
\<close>

definition socket_auth ::
  "verifier \<Rightarrow> bool \<Rightarrow> int \<Rightarrow> blacklist_state \<Rightarrow> handshake \<Rightarrow> socket_error + payload" where
  "socket_auth jwt_verify redisOk now st hs =
     (let token = handshake_token hs
      in if token = [] then Inl NoTokenProvided
         else (case isRevoked redisOk now token st of
                 Inl Thrown \<Rightarrow> Inl SocketInvalidToken
               | Inr True \<Rightarrow> Inl SocketTokenRevoked
               | Inr False \<Rightarrow>
                   (case jwt_verify token of
                      None \<Rightarrow> Inl SocketInvalidToken
                    | Some p \<Rightarrow> Inr p)))"

section \<open>Presence (server.mjs, "Socket.IO auth & presence")\<close>

type_synonym userId = js_string
type_synonym socketId = js_string
type_synonym presence = "userId \<rightharpoonup> socketId fset"

definition addPresence :: "userId \<Rightarrow> socketId \<Rightarrow> presence \<Rightarrow> presence" where
  "addPresence userId socketId onlineUsers =
     (let m = (if onlineUsers userId = None then onlineUsers(userId \<mapsto> {||}) else onlineUsers)
      in case m userId of
           None \<Rightarrow> m
         | Some sockets \<Rightarrow> m(userId \<mapsto> finsert socketId sockets))"

definition removePresence :: "userId \<Rightarrow> socketId \<Rightarrow> presence \<Rightarrow> presence" where
  "removePresence userId socketId onlineUsers =
     (case onlineUsers userId of
        None \<Rightarrow> onlineUsers
      | Some sockets \<Rightarrow>
          (let sockets' = sockets |-| {|socketId|}
           in if fcard sockets' = 0 then onlineUsers(userId := None)
              else onlineUsers(userId \<mapsto> sockets')))"

text \<open>
  The two presence events of a connection: \<open>io.on("connection")\<close> calls
  \<open>addPresence(userId, socket.id)\<close>, its \<open>disconnect\<close> handler calls
  \<open>removePresence(userId, socket.id)\<close>.
\<close>

datatype presence_event = Connect userId socketId | Disconnect userId socketId

fun apply_event :: "presence \<Rightarrow> presence_event \<Rightarrow> presence" where
  "apply_event m (Connect u s) = addPresence u s m"
| "apply_event m (Disconnect u s) = removePresence u s m"

definition run_events :: "presence_event list \<Rightarrow> presence \<Rightarrow> presence" where
  "run_events es m = foldl apply_event m es"

text \<open>A user is reported online when it is among \<open>onlineUsers.keys()\<close>.\<close>

definition isOnline :: "presence \<Rightarrow> userId \<Rightarrow> bool" where
  "isOnline onlineUsers u = (onlineUsers u \<noteq> None)"

definition sessions_of :: "presence \<Rightarrow> userId \<Rightarrow> socketId fset" where
  "sessions_of onlineUsers u = (case onlineUsers u of None \<Rightarrow> {||} | Some sockets \<Rightarrow> sockets)"

text \<open>The invariant of the presence map: no key is bound to an empty set.\<close>

definition presence_inv :: "presence \<Rightarrow> bool" where
  "presence_inv onlineUsers = (\<forall>u. onlineUsers u \<noteq> Some {||})"

text \<open>
  The specification's reading of "online", stated on the event sequence alone: some
  connect of user \<open>u\<close> with session \<open>s\<close> has no later disconnect of the same pair.
\<close>

fun unmatched_connect :: "presence_event list \<Rightarrow> userId \<Rightarrow> socketId \<Rightarrow> bool" where
  "unmatched_connect [] u s = False"
| "unmatched_connect (e # es) u s =
     ((e = Connect u s \<and> Disconnect u s \<notin> set es) \<or> unmatched_connect es u s)"

section \<open>Chats and messages (server.mjs, "MESSAGING & CHATS"; routes; controllers)\<close>

text \<open>
  Modelled from the spec: \<open>models/Message.js\<close> is not among the sources. A message has
  the fields the handlers read and write (\<open>chatId\<close>, \<open>sender\<close>, \<open>receiver\<close>, \<open>text\<close>,
  \<open>seen\<close>, \<open>createdAt\<close>); \<open>seen\<close> starts false and \<open>createdAt\<close> is set at creation,
  as the specification's Message entity has them.
\<close>

record message =
  m_id :: js_string
  m_chatId :: js_string
  m_sender :: js_string
  m_receiver :: js_string
  m_text :: js_string
  m_seen :: bool
  m_createdAt :: int

text \<open>\<open>models/Chat.js\<close>: participants, lastMessage, and the timestamps.\<close>

record chat =
  c_id :: js_string
  c_participants :: "js_string list"
  c_lastMessage :: js_string
  c_updatedAt :: int

text \<open>Events sent through \<open>io.to(room).emit(name, payload)\<close>.\<close>

datatype event =
    MessageNew message
  | ChatUpdated js_string js_string int
  | NewMessage message

text \<open>
  What a handler does to the outside world, in program order: writes to the two
  collections and emissions to a room.
\<close>

datatype effect =
    Persisted message
  | ChatSummarySet js_string js_string int
  | ChatCreated chat
  | SeenSet js_string js_string
  | Emitted js_string event

record store =
  messages :: "message list"
  chats :: "chat list"
  trace :: "effect list"

text \<open>
  What the environment contributes to one request: the clock (read once: the creation
  timestamp of a document and the \<open>new Date()\<close> of an update in the same request are
  the same instant), the identifier the database gives a new document, and whether a
  database call rejects (a rejected call is caught by the handler's \<open>catch\<close> and
  answered with status 500).
\<close>

record db_env =
  env_now :: int
  env_newId :: js_string
  env_findThrows :: bool
  env_createThrows :: bool
  env_updateThrows :: bool

datatype reply =
    Failure string
  | SentMessage message
  | MessageList "message list"
  | Updated nat
  | EnsuredChat chat

datatype response = Json nat reply

definition emit :: "js_string \<Rightarrow> event \<Rightarrow> store \<Rightarrow> store" where
  "emit room ev st = st\<lparr>trace := trace st @ [Emitted room ev]\<rparr>"

definition Message_create :: "message \<Rightarrow> store \<Rightarrow> store" where
  "Message_create msg st = st\<lparr>messages := messages st @ [msg], trace := trace st @ [Persisted msg]\<rparr>"

fun set_lastMessage :: "js_string \<Rightarrow> js_string \<Rightarrow> int \<Rightarrow> chat list \<Rightarrow> chat list" where
  "set_lastMessage chatId txt at [] = []"
| "set_lastMessage chatId txt at (c # cs) =
     (if c_id c = chatId then c\<lparr>c_lastMessage := txt, c_updatedAt := at\<rparr> # cs
      else c # set_lastMessage chatId txt at cs)"

text \<open>\<open>Chat.findByIdAndUpdate(chatId, { lastMessage, updatedAt })\<close>\<close>

definition Chat_findByIdAndUpdate :: "js_string \<Rightarrow> js_string \<Rightarrow> int \<Rightarrow> store \<Rightarrow> store" where
  "Chat_findByIdAndUpdate chatId txt at st =
     st\<lparr>chats := set_lastMessage chatId txt at (chats st),
        trace := trace st @ [ChatSummarySet chatId txt at]\<rparr>"

definition Chat_findById :: "js_string \<Rightarrow> chat list \<Rightarrow> chat option" where
  "Chat_findById chatId cs = find (\<lambda>c. c_id c = chatId) cs"

subsection \<open>Sending a message\<close>

record send_body =
  b_chatId :: "js_string option"
  b_receiver :: "js_string option"
  b_text :: "js_string option"

definition new_message :: "db_env \<Rightarrow> js_string \<Rightarrow> js_string \<Rightarrow> js_string \<Rightarrow> js_string \<Rightarrow> message" where
  "new_message env chatId sender receiver txt =
     \<lparr>m_id = env_newId env, m_chatId = chatId, m_sender = sender, m_receiver = receiver,
      m_text = txt, m_seen = False, m_createdAt = env_now env\<rparr>"

text \<open>\<open>app.post("/messages", auth, ...)\<close> of server.mjs, for the authenticated user.\<close>

definition post_messages :: "db_env \<Rightarrow> userId \<Rightarrow> send_body \<Rightarrow> store \<Rightarrow> response \<times> store" where
  "post_messages env user body st =
     (case (b_chatId body, b_receiver body, b_text body) of
        (Some chatId, Some receiver, Some txt) \<Rightarrow>
          if chatId = [] \<or> receiver = [] \<or> txt = [] \<or> trim txt = [] then
            (Json 400 (Failure ''chatId, receiver, text required''), st)
          else
            (let sanitized = trim txt in
             if env_createThrows env then (Json 500 (Failure ''Internal server error''), st)
             else
               (let msg = new_message env chatId user receiver sanitized;
                    st1 = Message_create msg st
                in if env_updateThrows env then (Json 500 (Failure ''Internal server error''), st1)
                   else
                     (let st2 = Chat_findByIdAndUpdate chatId sanitized (env_now env) st1;
                          st3 = emit receiver (MessageNew msg) st2;
                          st4 = emit user (MessageNew msg) st3;
                          st5 = emit receiver (ChatUpdated chatId sanitized (m_createdAt msg)) st4;
                          st6 = emit user (ChatUpdated chatId sanitized (m_createdAt msg)) st5
                      in (Json 201 (SentMessage msg), st6))))
      | _ \<Rightarrow> (Json 400 (Failure ''chatId, receiver, text required''), st))"

text \<open>
  \<open>router.post("/:chatId")\<close> of routes/messageRoutes.js. \<open>mongoose.Types.ObjectId.isValid\<close>
  is a parameter. The route emits nothing.
\<close>

record route_body =
  rb_senderId :: "js_string option"
  rb_receiverId :: "js_string option"
  rb_text :: "js_string option"

definition messageRoutes_post ::
  "(js_string option \<Rightarrow> bool) \<Rightarrow> db_env \<Rightarrow> js_string \<Rightarrow> route_body \<Rightarrow> store \<Rightarrow> response \<times> store" where
  "messageRoutes_post isValid env chatId body st =
     (if \<not> isValid (Some chatId) \<or> \<not> isValid (rb_senderId body) then
        (Json 400 (Failure ''Invalid chat ID or sender ID.''), st)
      else
        (case rb_text body of
           None \<Rightarrow> (Json 400 (Failure ''Message text cannot be empty.''), st)
         | Some txt \<Rightarrow>
             if txt = [] \<or> trim txt = [] then
               (Json 400 (Failure ''Message text cannot be empty.''), st)
             else if env_createThrows env then (Json 500 (Failure ''Server error''), st)
             else
               (let msg = new_message env chatId
                            (case rb_senderId body of None \<Rightarrow> [] | Some s \<Rightarrow> s)
                            (case rb_receiverId body of None \<Rightarrow> [] | Some r \<Rightarrow> r) txt;
                    st1 = Message_create msg st
                in if env_updateThrows env then (Json 500 (Failure ''Server error''), st1)
                   else (Json 201 (SentMessage msg),
                         Chat_findByIdAndUpdate chatId txt (env_now env) st1))))"

text \<open>\<open>sendMessage\<close> of controllers/messageController.js, for the authenticated user.\<close>

definition sendMessage :: "db_env \<Rightarrow> userId \<Rightarrow> send_body \<Rightarrow> store \<Rightarrow> response \<times> store" where
  "sendMessage env user body st =
     (case (b_chatId body, b_receiver body, b_text body) of
        (Some chatId, Some receiver, Some txt) \<Rightarrow>
          if chatId = [] \<or> receiver = [] \<or> txt = [] then
            (Json 400 (Failure ''chatId, receiver, and text are required''), st)
          else if env_createThrows env then (Json 500 (Failure ''Internal server error''), st)
          else
            (let msg = new_message env chatId user receiver txt;
                 st1 = Message_create msg st
             in if env_updateThrows env then (Json 500 (Failure ''Internal server error''), st1)
                else
                  (let st2 = Chat_findByIdAndUpdate chatId txt (env_now env) st1;
                       st3 = emit receiver (NewMessage msg) st2
                   in (Json 201 (SentMessage msg), st3)))
      | _ \<Rightarrow> (Json 400 (Failure ''chatId, receiver, and text are required''), st))"

subsection \<open>Message history\<close>

text \<open>
  The query parameters of \<open>GET /messages/:chatId\<close>. \<open>before\<close> is absent (or empty), or
  the value of \<open>new Date(before)\<close>; \<open>limit\<close> is absent (or not a number), or the integer
  \<open>Number(limit)\<close>.
\<close>

datatype js_date = InvalidDate | Date int

record history_query =
  q_before :: "js_date option"
  q_limit :: "int option"

text \<open>\<open>Math.min(Number(limit) || 50, 100)\<close>, with \<open>limit = 50\<close> when the parameter is absent.\<close>

definition page_size :: "int option \<Rightarrow> int" where
  "page_size limit =
     min (case limit of None \<Rightarrow> 50 | Some n \<Rightarrow> if n = 0 then 50 else n) 100"

text \<open>
  The MongoDB cursor operations used by the route. \<open>sort({ createdAt: -1 })\<close> is descending;
  the database leaves the order of equal keys open, the model keeps them in store order.
  \<open>limit(n)\<close> with a negative \<open>n\<close> returns \<open>|n|\<close> documents (in a single batch).
\<close>

definition sort_createdAt_desc :: "message list \<Rightarrow> message list" where
  "sort_createdAt_desc ms = sort_key (\<lambda>m. - m_createdAt m) ms"

definition mongo_limit :: "int \<Rightarrow> 'a list \<Rightarrow> 'a list" where
  "mongo_limit n xs = take (nat \<bar>n\<bar>) xs"

definition matches_history :: "js_string \<Rightarrow> int option \<Rightarrow> message \<Rightarrow> bool" where
  "matches_history chatId before m =
     (m_chatId m = chatId \<and> (case before of None \<Rightarrow> True | Some b \<Rightarrow> m_createdAt m < b))"

definition history_page :: "js_string \<Rightarrow> int option \<Rightarrow> int option \<Rightarrow> message list \<Rightarrow> message list" where
  "history_page chatId before limit ms =
     rev (mongo_limit (page_size limit)
            (sort_createdAt_desc (filter (matches_history chatId before) ms)))"

text \<open>\<open>app.get("/messages/:chatId", auth, ...)\<close> of server.mjs.\<close>

definition get_messages :: "db_env \<Rightarrow> js_string \<Rightarrow> history_query \<Rightarrow> store \<Rightarrow> response" where
  "get_messages env chatId q st =
     (case q_before q of
        Some InvalidDate \<Rightarrow> Json 500 (Failure ''Internal server error'')
      | Some (Date b) \<Rightarrow>
          if env_findThrows env then Json 500 (Failure ''Internal server error'')
          else Json 200 (MessageList (history_page chatId (Some b) (q_limit q) (messages st)))
      | None \<Rightarrow>
          if env_findThrows env then Json 500 (Failure ''Internal server error'')
          else Json 200 (MessageList (history_page chatId None (q_limit q) (messages st))))"

subsection \<open>Marking messages as seen\<close>

text \<open>\<open>Message.updateMany({ chatId, receiver, seen: false }, { $set: { seen: true } })\<close>\<close>

definition unseen_for :: "js_string \<Rightarrow> userId \<Rightarrow> message \<Rightarrow> bool" where
  "unseen_for chatId user m = (m_chatId m = chatId \<and> m_receiver m = user \<and> \<not> m_seen m)"

definition updateMany_seen :: "js_string \<Rightarrow> userId \<Rightarrow> message list \<Rightarrow> message list \<times> nat" where
  "updateMany_seen chatId user ms =
     (map (\<lambda>m. if unseen_for chatId user m then m\<lparr>m_seen := True\<rparr> else m) ms,
      length (filter (unseen_for chatId user) ms))"

text \<open>
  \<open>app.put("/messages/:chatId/seen", auth, ...)\<close> of server.mjs, and \<open>markAsSeen\<close> of
  controllers/messageController.js: the same update, the same count in the answer.
\<close>

definition put_messages_seen :: "db_env \<Rightarrow> userId \<Rightarrow> js_string \<Rightarrow> store \<Rightarrow> response \<times> store" where
  "put_messages_seen env user chatId st =
     (if env_updateThrows env then (Json 500 (Failure ''Internal server error''), st)
      else
        (case updateMany_seen chatId user (messages st) of
           (ms, modified) \<Rightarrow>
             (Json 200 (Updated modified),
              st\<lparr>messages := ms, trace := trace st @ [SeenSet chatId user]\<rparr>)))"

definition markAsSeen :: "db_env \<Rightarrow> userId \<Rightarrow> js_string \<Rightarrow> store \<Rightarrow> response \<times> store" where
  "markAsSeen env user chatId st =
     (if env_updateThrows env then (Json 500 (Failure ''Internal server error''), st)
      else
        (case updateMany_seen chatId user (messages st) of
           (ms, modified) \<Rightarrow>
             (Json 200 (Updated modified),
              st\<lparr>messages := ms, trace := trace st @ [SeenSet chatId user]\<rparr>)))"

subsection \<open>Ensuring a chat\<close>

text \<open>
  \<open>Chat.findOne({ participants: { $all: [a, b] } })\<close>: the first chat, in store order,
  whose participants array holds every listed value.
\<close>

definition Chat_findOne_all :: "js_string list \<Rightarrow> chat list \<Rightarrow> chat option" where
  "Chat_findOne_all ids cs = find (\<lambda>c. set ids \<subseteq> set (c_participants c)) cs"

definition new_chat :: "db_env \<Rightarrow> js_string \<Rightarrow> js_string \<Rightarrow> chat" where
  "new_chat env a b =
     \<lparr>c_id = env_newId env, c_participants = [a, b], c_lastMessage = [], c_updatedAt = env_now env\<rparr>"

definition Chat_create :: "chat \<Rightarrow> store \<Rightarrow> store" where
  "Chat_create c st = st\<lparr>chats := chats st @ [c], trace := trace st @ [ChatCreated c]\<rparr>"

text \<open>
  The body shared by the two routes that ensure a chat; \<open>failure\<close> is the text each
  route's \<open>catch\<close> answers with status 500.
\<close>

definition find_or_create ::
  "string \<Rightarrow> db_env \<Rightarrow> js_string \<Rightarrow> js_string \<Rightarrow> store \<Rightarrow> response \<times> store" where
  "find_or_create failure env a b st =
     (if env_findThrows env then (Json 500 (Failure failure), st)
      else
        (case Chat_findOne_all [a, b] (chats st) of
           Some c \<Rightarrow> (Json 200 (EnsuredChat c), st)
         | None \<Rightarrow>
             if env_createThrows env then (Json 500 (Failure failure), st)
             else (let c = new_chat env a b in (Json 200 (EnsuredChat c), Chat_create c st))))"

text \<open>\<open>app.post("/chats/ensure", auth, ...)\<close> of server.mjs, for the authenticated user.\<close>

definition post_chats_ensure :: "db_env \<Rightarrow> userId \<Rightarrow> js_string option \<Rightarrow> store \<Rightarrow> response \<times> store" where
  "post_chats_ensure env user withUserId st =
     (case withUserId of
        None \<Rightarrow> (Json 400 (Failure ''withUserId required''), st)
      | Some w \<Rightarrow>
          if w = [] then (Json 400 (Failure ''withUserId required''), st)
          else find_or_create ''Internal server error'' env user w st)"

text \<open>\<open>router.post("/")\<close> of routes/chatRoutes.js.\<close>

definition chatRoutes_post ::
  "db_env \<Rightarrow> js_string option \<Rightarrow> js_string option \<Rightarrow> store \<Rightarrow> response \<times> store" where
  "chatRoutes_post env userId1 userId2 st =
     (case (userId1, userId2) of
        (Some a, Some b) \<Rightarrow>
          if a = [] \<or> b = [] then (Json 400 (Failure ''Both user IDs are required.''), st)
          else find_or_create ''Server error'' env a b st
      | _ \<Rightarrow> (Json 400 (Failure ''Both user IDs are required.''), st))"

text \<open>Every chat of the store has exactly two participants, as every creation gives it.\<close>

definition two_party :: "store \<Rightarrow> bool" where
  "two_party st = list_all (\<lambda>c. length (c_participants c) = 2) (chats st)"

subsection \<open>Order of effects\<close>




fun event_text :: "event \<Rightarrow> js_string" where
  "event_text (MessageNew m) = m_text m"
| "event_text (ChatUpdated chatId lastMessage at) = lastMessage"
| "event_text (NewMessage m) = m_text m"

fun emitted_events :: "effect list \<Rightarrow> event list" where
  "emitted_events [] = []"
| "emitted_events (Emitted room ev # es) = ev # emitted_events es"
| "emitted_events (e # es) = emitted_events es"

definition empty_store :: store where
  "empty_store = \<lparr>messages = [], chats = [], trace = []\<rparr>"

section \<open>Presence: invariant and meaning\<close>

lemma addPresence_inv: "presence_inv m \<Longrightarrow> presence_inv (addPresence u s m)"
  by (auto simp: presence_inv_def addPresence_def Let_def split: option.splits)

lemma removePresence_inv: "presence_inv m \<Longrightarrow> presence_inv (removePresence u s m)"
  by (auto simp: presence_inv_def removePresence_def Let_def split: option.splits)

lemma sessions_addPresence: "sessions_of (addPresence u s m) u' =
   (if u' = u then finsert s (sessions_of m u) else sessions_of m u')"
  by (auto simp: sessions_of_def addPresence_def Let_def split: option.splits)

lemma sessions_removePresence: "sessions_of (removePresence u s m) u' =
   (if u' = u then sessions_of m u |-| {|s|} else sessions_of m u')"
  by (auto simp: sessions_of_def removePresence_def Let_def  split: option.splits)

lemma unmatched_connect_snoc: "unmatched_connect (es @ [e]) u s \<longleftrightarrow>
   e = Connect u s \<or> (unmatched_connect es u s \<and> e \<noteq> Disconnect u s)"
  by (induction es) auto

lemma run_events_snoc: "run_events (es @ [e]) m = apply_event (run_events es m) e"
  by (simp add: run_events_def)

lemma run_events_inv: "presence_inv m \<Longrightarrow> presence_inv (run_events es m)"
proof (induction es rule: rev_induct)
  case Nil then show ?case by (simp add: run_events_def)
next
  case (snoc e es)
  then show ?case by (cases e) (simp_all add: run_events_snoc addPresence_inv removePresence_inv)
qed

lemma presence_inv_empty: "presence_inv Map.empty"
  by (simp add: presence_inv_def)

lemma sessions_run_events:
  "s |\<in>| sessions_of (run_events es Map.empty) u \<longleftrightarrow> unmatched_connect es u s"
proof (induction es rule: rev_induct)
  case Nil then show ?case by (simp add: run_events_def sessions_of_def)
next
  case (snoc e es)
  then show ?case
    by (cases e) (auto simp: run_events_snoc unmatched_connect_snoc sessions_addPresence sessions_removePresence)
qed

lemma online_iff_sessions: "presence_inv m \<Longrightarrow> isOnline m u \<longleftrightarrow> sessions_of m u \<noteq> {||}"
  by (auto simp: presence_inv_def isOnline_def sessions_of_def split: option.splits)

text \<open>
  Claim C3. After any sequence of \<open>addPresence\<close> and \<open>removePresence\<close> calls from the
  empty map, a user is a key of the map exactly when its set of sessions is not empty: no
  key is bound to the empty set, and removing the only session of a user deletes the key.
\<close>

theorem presence_key_iff_nonempty:
  "(isOnline (run_events es Map.empty) u \<longleftrightarrow> sessions_of (run_events es Map.empty) u \<noteq> {||})
   \<and> run_events es Map.empty u \<noteq> Some {||}
   \<and> (run_events es Map.empty u = Some {|s|} \<longrightarrow>
        removePresence u s (run_events es Map.empty) u = None)"
proof -
  have inv: "presence_inv (run_events es Map.empty)"
    by (rule run_events_inv) (rule presence_inv_empty)
  have a: "isOnline (run_events es Map.empty) u \<longleftrightarrow> sessions_of (run_events es Map.empty) u \<noteq> {||}"
    using inv by (rule online_iff_sessions)
  have b: "run_events es Map.empty u \<noteq> Some {||}"
    using inv by (simp add: presence_inv_def)
  have c: "run_events es Map.empty u = Some {|s|} \<longrightarrow>
        removePresence u s (run_events es Map.empty) u = None"
    by (simp add: removePresence_def Let_def)
  from a b c show ?thesis by blast
qed

theorem presence_key_iff_nonempty_witness:
  "isOnline (run_events [Connect (js ''u1'') (js ''a''), Connect (js ''u2'') (js ''b''), Disconnect (js ''u2'') (js ''b'')] Map.empty) (js ''u1'')
   \<and> \<not> isOnline (run_events [Connect (js ''u1'') (js ''a''), Connect (js ''u2'') (js ''b''), Disconnect (js ''u2'') (js ''b'')] Map.empty) (js ''u2'')
   \<and> run_events [Connect (js ''u1'') (js ''a'')] Map.empty (js ''u1'') = Some {|js ''a''|}
   \<and> removePresence (js ''u1'') (js ''a'') (run_events [Connect (js ''u1'') (js ''a'')] Map.empty) (js ''u1'') = None"
proof -
  have h: "run_events [Connect (js ''u1'') (js ''a'')] Map.empty (js ''u1'') = Some {|js ''a''|}"
    by (simp add: run_events_def addPresence_def Let_def)
  have r: "removePresence (js ''u1'') (js ''a'') (run_events [Connect (js ''u1'') (js ''a'')] Map.empty) (js ''u1'') = None"
    using presence_key_iff_nonempty [of "[Connect (js ''u1'') (js ''a'')]" "js ''u1''" "js ''a''"] h by blast
  have o1: "isOnline (run_events [Connect (js ''u1'') (js ''a''), Connect (js ''u2'') (js ''b''), Disconnect (js ''u2'') (js ''b'')] Map.empty) (js ''u1'')"
    by (simp add: run_events_def addPresence_def removePresence_def Let_def isOnline_def js_def)
  have o2: "\<not> isOnline (run_events [Connect (js ''u1'') (js ''a''), Connect (js ''u2'') (js ''b''), Disconnect (js ''u2'') (js ''b'')] Map.empty) (js ''u2'')"
    by (simp add: run_events_def addPresence_def removePresence_def Let_def isOnline_def js_def)
  from o1 o2 h r show ?thesis by blast
qed

text \<open>
  Claim C4. After any sequence of connect and disconnect events from the empty map, a
  user is reported online exactly when one of its connects has no later disconnect of the
  same session; and \<open>addPresence\<close> with the same pair twice is the same as once.
\<close>

theorem online_iff_unmatched_connect:
  "(isOnline (run_events es Map.empty) u \<longleftrightarrow> (\<exists>s. unmatched_connect es u s))
   \<and> addPresence u s (addPresence u s m) = addPresence u s m"
proof -
  have "presence_inv (run_events es Map.empty)"
    by (rule run_events_inv) (rule presence_inv_empty)
  then have "isOnline (run_events es Map.empty) u \<longleftrightarrow> sessions_of (run_events es Map.empty) u \<noteq> {||}"
    by (rule online_iff_sessions)
  also have "\<dots> \<longleftrightarrow> (\<exists>s. s |\<in>| sessions_of (run_events es Map.empty) u)" by auto
  finally have a: "isOnline (run_events es Map.empty) u \<longleftrightarrow> (\<exists>s. unmatched_connect es u s)"
    by (simp add: sessions_run_events)
  have b: "addPresence u s (addPresence u s m) = addPresence u s m"
    by (auto simp: addPresence_def Let_def split: option.splits)
  from a b show ?thesis by blast
qed

theorem online_iff_unmatched_connect_witness:
  "isOnline (run_events [Connect (js ''u1'') (js ''a''), Connect (js ''u1'') (js ''b''), Disconnect (js ''u1'') (js ''a'')] Map.empty) (js ''u1'')
   \<and> \<not> isOnline (run_events [Connect (js ''u1'') (js ''a''), Disconnect (js ''u1'') (js ''a'')] Map.empty) (js ''u1'')"
proof -
  have u: "unmatched_connect [Connect (js ''u1'') (js ''a''), Connect (js ''u1'') (js ''b''), Disconnect (js ''u1'') (js ''a'')] (js ''u1'') (js ''b'')"
    by (simp add: js_def)
  have n: "\<not> (\<exists>s. unmatched_connect [Connect (js ''u1'') (js ''a''), Disconnect (js ''u1'') (js ''a'')] (js ''u1'') s)"
    by simp
  show ?thesis
    using online_iff_unmatched_connect [of "[Connect (js ''u1'') (js ''a''), Connect (js ''u1'') (js ''b''), Disconnect (js ''u1'') (js ''a'')]" "js ''u1''"]
      online_iff_unmatched_connect [of "[Connect (js ''u1'') (js ''a''), Disconnect (js ''u1'') (js ''a'')]" "js ''u1''"] u n
    by blast
qed

section \<open>Revocation: expiry and order of checks\<close>

lemma run_sweeps_useRedis: "useRedis (run_sweeps sweeps st) = useRedis st"
  by (induction sweeps arbitrary: st) (simp_all add: sweep_def)

lemma run_sweeps_redisClient: "redisClient (run_sweeps sweeps st) = redisClient st"
  by (induction sweeps arbitrary: st) (simp_all add: sweep_def)

lemma run_sweeps_entry:
  "inMemoryBlacklist (run_sweeps sweeps st) token =
     (case inMemoryBlacklist st token of
        None \<Rightarrow> None
      | Some exp \<Rightarrow> if \<forall>s\<in>set sweeps. s < exp then Some exp else None)"
proof (induction sweeps arbitrary: st)
  case Nil
  then show ?case by (simp split: option.splits)
next
  case (Cons a sweeps)
  then show ?case by (auto simp: sweep_def split: option.splits)
qed

lemma logout_revokes:
  "extractTokenFromRequest req = Inr (Some token) \<Longrightarrow> token \<noteq> [] \<Longrightarrow>
     logout redisOk now req st = Inr (blacklistToken redisOk now token (24 * 60 * 60) st)"
  by (simp add: logout_def falsy_def)

lemma isRevoked_in_memory:
  "\<not> useRedis st \<Longrightarrow> isRevoked redisOk t token st = Inr (inMemoryBlacklist st token \<noteq> None)"
  by (simp add: isRevoked_def)

lemma isRevoked_get_fails: "useRedis st \<Longrightarrow> isRevoked False t token st = Inl Thrown"
  by (simp add: isRevoked_def redis_get_def)

lemma blacklistToken_setex_fails: "useRedis st \<Longrightarrow> blacklistToken False now token ttl st = st"
  by (simp add: blacklistToken_def redis_setex_def)

text \<open>
  Claim C1, as the code has it. For a non-empty token revoked at instant \<open>now\<close> with
  time-to-live \<open>ttl\<close> seconds, write \<open>revokedUntil = now + ttl * 1000\<close>. With the in-memory
  blacklist the check answers, at whatever instant it is made, true exactly as long as no
  sweep has run at or after \<open>revokedUntil\<close>: true at once, true through every earlier
  sweep, still true past \<open>revokedUntil\<close> while no sweep has run since, false once a sweep
  at or after \<open>revokedUntil\<close> has run. With the Redis blacklist, when the SETEX of the
  revocation succeeds with a positive time-to-live, the check made at instant \<open>t\<close>
  answers true exactly when \<open>t < revokedUntil\<close>, sweeps playing no part, provided its
  GET succeeds, and throws when its GET fails; when the SETEX fails, the failure is
  swallowed and the revocation leaves the blacklist as it was.
\<close>

theorem revoked_until_swept:
  assumes "token \<noteq> []"
  shows "(\<not> useRedis st \<longrightarrow>
            isRevoked getOk t token (run_sweeps sweeps (blacklistToken setexOk now token ttl st))
              = Inr (\<forall>s\<in>set sweeps. s < now + ttl * 1000))
       \<and> (useRedis st \<and> setexOk \<and> 0 < ttl \<longrightarrow>
            isRevoked getOk t token (run_sweeps sweeps (blacklistToken setexOk now token ttl st))
              = (if getOk then Inr (t < now + ttl * 1000) else Inl Thrown))
       \<and> (useRedis st \<and> \<not> setexOk \<longrightarrow>
            blacklistToken setexOk now token ttl st = st)"
proof -
  have mem: "isRevoked getOk t token (run_sweeps sweeps (blacklistToken setexOk now token ttl st))
              = Inr (\<forall>s\<in>set sweeps. s < now + ttl * 1000)" if "\<not> useRedis st"
    using that assms
    by (simp add: isRevoked_def run_sweeps_useRedis run_sweeps_entry blacklistToken_def Let_def)
  have red: "isRevoked getOk t token (run_sweeps sweeps (blacklistToken setexOk now token ttl st))
              = (if getOk then Inr (t < now + ttl * 1000) else Inl Thrown)"
    if "useRedis st" "setexOk" "0 < ttl"
    using that assms
    by (simp add: isRevoked_def run_sweeps_useRedis run_sweeps_redisClient blacklistToken_def
        redis_setex_def redis_get_def js_def)
  have lost: "blacklistToken setexOk now token ttl st = st" if "useRedis st" "\<not> setexOk"
    using that by (simp add: blacklistToken_def redis_setex_def)
  from mem red lost show ?thesis by blast
qed

theorem revoked_until_swept_witness:
  "isRevoked True 0 (js ''t1'') (run_sweeps [] (blacklistToken True 0 (js ''t1'') 86400
       \<lparr>useRedis = False, redisClient = Map.empty, inMemoryBlacklist = Map.empty\<rparr>)) = Inr True
   \<and> isRevoked True 86400001 (js ''t1'') (run_sweeps [60000, 120000] (blacklistToken True 0 (js ''t1'') 86400
       \<lparr>useRedis = False, redisClient = Map.empty, inMemoryBlacklist = Map.empty\<rparr>)) = Inr True
   \<and> isRevoked True 86400001 (js ''t1'') (run_sweeps [60000, 86400000] (blacklistToken True 0 (js ''t1'') 86400
       \<lparr>useRedis = False, redisClient = Map.empty, inMemoryBlacklist = Map.empty\<rparr>)) = Inr False
   \<and> isRevoked True 86399999 (js ''t1'') (run_sweeps [] (blacklistToken True 0 (js ''t1'') 86400
       \<lparr>useRedis = True, redisClient = Map.empty, inMemoryBlacklist = Map.empty\<rparr>)) = Inr True
   \<and> isRevoked True 86400001 (js ''t1'') (run_sweeps [] (blacklistToken True 0 (js ''t1'') 86400
       \<lparr>useRedis = True, redisClient = Map.empty, inMemoryBlacklist = Map.empty\<rparr>)) = Inr False
   \<and> isRevoked False 1000 (js ''t1'') (run_sweeps [] (blacklistToken True 0 (js ''t1'') 86400
       \<lparr>useRedis = True, redisClient = Map.empty, inMemoryBlacklist = Map.empty\<rparr>)) = Inl Thrown
   \<and> blacklistToken False 0 (js ''t1'') 86400
       \<lparr>useRedis = True, redisClient = Map.empty, inMemoryBlacklist = Map.empty\<rparr>
      = \<lparr>useRedis = True, redisClient = Map.empty, inMemoryBlacklist = Map.empty\<rparr>"
proof -
  have ne: "js ''t1'' \<noteq> []" by (simp add: js_def)
  show ?thesis
    using revoked_until_swept [OF ne, of "\<lparr>useRedis = False, redisClient = Map.empty, inMemoryBlacklist = Map.empty\<rparr>" True 0 "[]" True 0 86400]
      revoked_until_swept [OF ne, of "\<lparr>useRedis = False, redisClient = Map.empty, inMemoryBlacklist = Map.empty\<rparr>" True 86400001 "[60000, 120000]" True 0 86400]
      revoked_until_swept [OF ne, of "\<lparr>useRedis = False, redisClient = Map.empty, inMemoryBlacklist = Map.empty\<rparr>" True 86400001 "[60000, 86400000]" True 0 86400]
      revoked_until_swept [OF ne, of "\<lparr>useRedis = True, redisClient = Map.empty, inMemoryBlacklist = Map.empty\<rparr>" True 86399999 "[]" True 0 86400]
      revoked_until_swept [OF ne, of "\<lparr>useRedis = True, redisClient = Map.empty, inMemoryBlacklist = Map.empty\<rparr>" True 86400001 "[]" True 0 86400]
      revoked_until_swept [OF ne, of "\<lparr>useRedis = True, redisClient = Map.empty, inMemoryBlacklist = Map.empty\<rparr>" False 1000 "[]" True 0 86400]
      revoked_until_swept [OF ne, of "\<lparr>useRedis = True, redisClient = Map.empty, inMemoryBlacklist = Map.empty\<rparr>" True 0 "[]" False 0 86400]
    by simp
qed

text \<open>
  Claim C1 as stated fails on the in-memory blacklist: a token revoked at instant 0 for
  86400 seconds is still reported revoked at instant 86400001 when no sweep has run, since
  the check is \<open>inMemoryBlacklist.has(token)\<close> and never reads the stored expiry.
\<close>

theorem revoked_past_expiry_counterexample:
  "inMemoryBlacklist (blacklistToken True 0 (js ''t1'') 86400
       \<lparr>useRedis = False, redisClient = Map.empty, inMemoryBlacklist = Map.empty\<rparr>) (js ''t1'') = Some 86400000
   \<and> (86400000::int) < 86400001
   \<and> isRevoked True 86400001 (js ''t1'') (blacklistToken True 0 (js ''t1'') 86400
       \<lparr>useRedis = False, redisClient = Map.empty, inMemoryBlacklist = Map.empty\<rparr>) = Inr True"
  by (simp add: blacklistToken_def isRevoked_def Let_def js_def)

lemma auth_with_token:
  "extractTokenFromRequest req = Inr (Some token) \<Longrightarrow> token \<noteq> [] \<Longrightarrow>
     auth jwt_verify redisOk now st req =
       (case isRevoked redisOk now token st of
          Inl Thrown \<Rightarrow> Inl InvalidToken
        | Inr True \<Rightarrow> Inl TokenRevoked
        | Inr False \<Rightarrow> (case jwt_verify token of None \<Rightarrow> Inl InvalidToken | Some p \<Rightarrow> Inr p))"
  by (simp add: auth_def falsy_def)

lemma socket_auth_with_token:
  "handshake_token hs \<noteq> [] \<Longrightarrow>
     socket_auth jwt_verify redisOk now st hs =
       (case isRevoked redisOk now (handshake_token hs) st of
          Inl Thrown \<Rightarrow> Inl SocketInvalidToken
        | Inr True \<Rightarrow> Inl SocketTokenRevoked
        | Inr False \<Rightarrow>
            (case jwt_verify (handshake_token hs) of
               None \<Rightarrow> Inl SocketInvalidToken | Some p \<Rightarrow> Inr p))"
  by (simp add: socket_auth_def Let_def)

text \<open>
  Claim C2, as the code has it. In the REST middleware and in the socket middleware the
  blacklist is consulted before \<open>jwt.verify\<close>. A presented token is answered "Token
  revoked" exactly when the lookup succeeds and finds it blacklisted, whether or not it
  would verify; "Invalid token" exactly when the lookup itself fails (a rejected Redis
  GET, again whether or not the token would verify) or when the token is not blacklisted
  and does not verify; and access is granted exactly when the lookup succeeds, the token
  is not blacklisted and it verifies.
\<close>

theorem revocation_before_verification:
  "(extractTokenFromRequest req = Inr (Some token) \<and> token \<noteq> [] \<longrightarrow>
      (auth jwt_verify redisOk now st req = Inl TokenRevoked \<longleftrightarrow>
         isRevoked redisOk now token st = Inr True)
    \<and> (auth jwt_verify redisOk now st req = Inl InvalidToken \<longleftrightarrow>
         isRevoked redisOk now token st = Inl Thrown \<or>
         (isRevoked redisOk now token st = Inr False \<and> jwt_verify token = None))
    \<and> (auth jwt_verify redisOk now st req = Inr p \<longleftrightarrow>
         isRevoked redisOk now token st = Inr False \<and> jwt_verify token = Some p))
   \<and> (handshake_token hs \<noteq> [] \<longrightarrow>
      (socket_auth jwt_verify redisOk now st hs = Inl SocketTokenRevoked \<longleftrightarrow>
         isRevoked redisOk now (handshake_token hs) st = Inr True)
    \<and> (socket_auth jwt_verify redisOk now st hs = Inl SocketInvalidToken \<longleftrightarrow>
         isRevoked redisOk now (handshake_token hs) st = Inl Thrown \<or>
         (isRevoked redisOk now (handshake_token hs) st = Inr False \<and>
          jwt_verify (handshake_token hs) = None))
    \<and> (socket_auth jwt_verify redisOk now st hs = Inr p \<longleftrightarrow>
         isRevoked redisOk now (handshake_token hs) st = Inr False \<and>
         jwt_verify (handshake_token hs) = Some p))"
proof -
  have a: "(auth jwt_verify redisOk now st req = Inl TokenRevoked \<longleftrightarrow>
         isRevoked redisOk now token st = Inr True)
    \<and> (auth jwt_verify redisOk now st req = Inl InvalidToken \<longleftrightarrow>
         isRevoked redisOk now token st = Inl Thrown \<or>
         (isRevoked redisOk now token st = Inr False \<and> jwt_verify token = None))
    \<and> (auth jwt_verify redisOk now st req = Inr p \<longleftrightarrow>
         isRevoked redisOk now token st = Inr False \<and> jwt_verify token = Some p)"
    if "extractTokenFromRequest req = Inr (Some token)" "token \<noteq> []"
    unfolding auth_with_token [OF that]
    by (auto split: sum.splits js_exception.splits bool.splits option.splits)
  have b: "(socket_auth jwt_verify redisOk now st hs = Inl SocketTokenRevoked \<longleftrightarrow>
         isRevoked redisOk now (handshake_token hs) st = Inr True)
    \<and> (socket_auth jwt_verify redisOk now st hs = Inl SocketInvalidToken \<longleftrightarrow>
         isRevoked redisOk now (handshake_token hs) st = Inl Thrown \<or>
         (isRevoked redisOk now (handshake_token hs) st = Inr False \<and>
          jwt_verify (handshake_token hs) = None))
    \<and> (socket_auth jwt_verify redisOk now st hs = Inr p \<longleftrightarrow>
         isRevoked redisOk now (handshake_token hs) st = Inr False \<and>
         jwt_verify (handshake_token hs) = Some p)"
    if "handshake_token hs \<noteq> []"
    unfolding socket_auth_with_token [OF that]
    by (auto split: sum.splits js_exception.splits bool.splits option.splits)
  from a b show ?thesis by blast
qed

lemma extract_bearer_example: "extractTokenFromRequest \<lparr>authorization = Some (js ''Bearer t1''), accessToken = CookieAbsent\<rparr> = Inr (Some (js ''t1''))"
  by (simp add: extractTokenFromRequest_def js_def falsy_def)

lemma handshake_bearer_example: "handshake_token \<lparr>auth_token = None, headers_authorization = Some (js ''bEARER   t1'')\<rparr> = js ''t1''"
  by (simp add: handshake_token_def js_or_def falsy_def stripBearer_def isBearerWord_def js_def isWhiteSpace_def)

theorem revocation_before_verification_witness:
  "auth (Map.empty(js ''t1'' \<mapsto> \<lparr>p_id = js ''u1'', p_collegeId = js ''c1''\<rparr>)) True 1000
       \<lparr>useRedis = False, redisClient = Map.empty, inMemoryBlacklist = Map.empty\<rparr>
       \<lparr>authorization = Some (js ''Bearer t1''), accessToken = CookieAbsent\<rparr>
     = Inr \<lparr>p_id = js ''u1'', p_collegeId = js ''c1''\<rparr>
   \<and> socket_auth (Map.empty(js ''t1'' \<mapsto> \<lparr>p_id = js ''u1'', p_collegeId = js ''c1''\<rparr>)) True 1000
       (blacklistToken True 0 (js ''t1'') 86400 \<lparr>useRedis = False, redisClient = Map.empty, inMemoryBlacklist = Map.empty\<rparr>)
       \<lparr>auth_token = None, headers_authorization = Some (js ''bEARER   t1'')\<rparr>
     = Inl SocketTokenRevoked
   \<and> auth (Map.empty(js ''t1'' \<mapsto> \<lparr>p_id = js ''u1'', p_collegeId = js ''c1''\<rparr>)) False 1000
       \<lparr>useRedis = True, redisClient = Map.empty, inMemoryBlacklist = Map.empty\<rparr>
       \<lparr>authorization = Some (js ''Bearer t1''), accessToken = CookieAbsent\<rparr>
     = Inl InvalidToken"
proof -
  have ne: "js ''t1'' \<noteq> []" by (simp add: js_def)
  have a: "isRevoked True 1000 (js ''t1'') \<lparr>useRedis = False, redisClient = Map.empty, inMemoryBlacklist = Map.empty\<rparr> = Inr False"
    by (simp add: isRevoked_def)
  have b: "isRevoked True 1000 (js ''t1'')
      (blacklistToken True 0 (js ''t1'') 86400 \<lparr>useRedis = False, redisClient = Map.empty, inMemoryBlacklist = Map.empty\<rparr>) = Inr True"
    by (simp add: isRevoked_def blacklistToken_def Let_def js_def)
  have c: "isRevoked False 1000 (js ''t1'') \<lparr>useRedis = True, redisClient = Map.empty, inMemoryBlacklist = Map.empty\<rparr> = Inl Thrown"
    by (simp add: isRevoked_def redis_get_def)
  show ?thesis
    using revocation_before_verification
        [of "\<lparr>authorization = Some (js ''Bearer t1''), accessToken = CookieAbsent\<rparr>" "js ''t1''"
            "Map.empty(js ''t1'' \<mapsto> \<lparr>p_id = js ''u1'', p_collegeId = js ''c1''\<rparr>)" True 1000
            "\<lparr>useRedis = False, redisClient = Map.empty, inMemoryBlacklist = Map.empty\<rparr>"
            "\<lparr>p_id = js ''u1'', p_collegeId = js ''c1''\<rparr>"]
      revocation_before_verification
        [of _ _ "Map.empty(js ''t1'' \<mapsto> \<lparr>p_id = js ''u1'', p_collegeId = js ''c1''\<rparr>)" True 1000
            "blacklistToken True 0 (js ''t1'') 86400 \<lparr>useRedis = False, redisClient = Map.empty, inMemoryBlacklist = Map.empty\<rparr>"
            _ "\<lparr>auth_token = None, headers_authorization = Some (js ''bEARER   t1'')\<rparr>"]
      revocation_before_verification
        [of "\<lparr>authorization = Some (js ''Bearer t1''), accessToken = CookieAbsent\<rparr>" "js ''t1''"
            "Map.empty(js ''t1'' \<mapsto> \<lparr>p_id = js ''u1'', p_collegeId = js ''c1''\<rparr>)" False 1000
            "\<lparr>useRedis = True, redisClient = Map.empty, inMemoryBlacklist = Map.empty\<rparr>"]
      extract_bearer_example handshake_bearer_example ne a b c
    by simp
qed

text \<open>
  Claim C2 as stated fails: a token that does not verify and is blacklisted is answered
  "Token revoked" by both middlewares, not "Invalid token".
\<close>

theorem revoked_and_invalid_counterexample:
  "Map.empty (js ''t1'') = (None :: payload option)
   \<and> auth Map.empty True 1000
       (blacklistToken True 0 (js ''t1'') 86400 \<lparr>useRedis = False, redisClient = Map.empty, inMemoryBlacklist = Map.empty\<rparr>)
       \<lparr>authorization = Some (js ''Bearer t1''), accessToken = CookieAbsent\<rparr> = Inl TokenRevoked
   \<and> socket_auth Map.empty True 1000
       (blacklistToken True 0 (js ''t1'') 86400 \<lparr>useRedis = False, redisClient = Map.empty, inMemoryBlacklist = Map.empty\<rparr>)
       \<lparr>auth_token = Some (js ''t1''), headers_authorization = None\<rparr> = Inl SocketTokenRevoked"
  by (simp add: auth_def socket_auth_def extractTokenFromRequest_def handshake_token_def js_or_def
      falsy_def stripBearer_def isBearerWord_def blacklistToken_def isRevoked_def Let_def js_def)

section \<open>Sending a message: trimming, order of effects, validation\<close>

lemma rev_dropWhile_rev:
  "rev (dropWhile P (rev ys)) @ rev (takeWhile P (rev ys)) = ys"
  by (metis rev_append rev_rev_ident takeWhile_dropWhile_id)

lemma trim_decompose:
  "t = takeWhile isWhiteSpace t @ trim t @ rev (takeWhile isWhiteSpace (rev (dropWhile isWhiteSpace t)))"
proof -
  let ?ys = "dropWhile isWhiteSpace t"
  have "trim t @ rev (takeWhile isWhiteSpace (rev ?ys)) = ?ys"
    unfolding trim_def by (rule rev_dropWhile_rev)
  moreover have "t = takeWhile isWhiteSpace t @ ?ys" by simp
  ultimately show ?thesis by metis
qed

lemma trim_last: "trim t \<noteq> [] \<Longrightarrow> \<not> isWhiteSpace (last (trim t))"
  by (simp add: trim_def last_rev hd_dropWhile)

lemma trim_hd: assumes "trim t \<noteq> []" shows "\<not> isWhiteSpace (hd (trim t))"
proof -
  let ?ys = "dropWhile isWhiteSpace t"
  have "?ys = trim t @ rev (takeWhile isWhiteSpace (rev ?ys))"
    using trim_decompose [of t] by (metis same_append_eq takeWhile_dropWhile_id)
  then have "hd ?ys = hd (trim t)" and "?ys \<noteq> []"
    using assms by (metis hd_append2, metis append_is_Nil_conv)
  then show ?thesis by (metis hd_dropWhile)
qed

lemma dropWhile_keeps: "xs \<noteq> [] \<Longrightarrow> \<not> P (hd xs) \<Longrightarrow> dropWhile P xs = xs"
  by (cases xs) simp_all

lemma trim_idem: "trim (trim t) = trim t"
proof (cases "trim t = []")
  case True
  have "trim [] = []" by (simp add: trim_def)
  with True show ?thesis by simp
next
  case False
  have h: "\<not> isWhiteSpace (hd (trim t))" using False by (rule trim_hd)
  have l: "\<not> isWhiteSpace (last (trim t))" using False by (rule trim_last)
  have 1: "dropWhile isWhiteSpace (trim t) = trim t"
    using False h by (intro dropWhile_keeps) 
  have "rev (trim t) \<noteq> []" using False by simp
  moreover have "hd (rev (trim t)) = last (trim t)" using False by (simp add: hd_rev)
  ultimately have 2: "dropWhile isWhiteSpace (rev (trim t)) = rev (trim t)"
    using l by (intro dropWhile_keeps) simp_all
  show ?thesis
    unfolding trim_def [of "trim t"] 1 2 by simp
qed



lemma trim_wrapped_in_whitespace:
  "\<exists>pre suf. t = pre @ trim t @ suf \<and> list_all isWhiteSpace pre \<and> list_all isWhiteSpace suf"
proof -
  have "list_all isWhiteSpace (takeWhile isWhiteSpace t)"
    by (simp add: list_all_iff) (meson set_takeWhileD)
  moreover have "list_all isWhiteSpace (rev (takeWhile isWhiteSpace (rev (dropWhile isWhiteSpace t))))"
    by (simp add: list_all_iff) (meson set_takeWhileD)
  ultimately show ?thesis using trim_decompose [of t] by blast
qed



lemma post_messages_400:
  "b_chatId body = None \<or> b_receiver body = None \<or> b_text body = None \<or>
   b_chatId body = Some [] \<or> b_receiver body = Some [] \<or> b_text body = Some [] \<or>
   (\<exists>txt. b_text body = Some txt \<and> trim txt = []) \<Longrightarrow>
   post_messages env user body st = (Json 400 (Failure ''chatId, receiver, text required''), st)"
  by (auto simp: post_messages_def split: option.splits)

lemma post_messages_valid:
  assumes "b_chatId body = Some chatId" "b_receiver body = Some receiver" "b_text body = Some txt"
    and "chatId \<noteq> []" "receiver \<noteq> []" "trim txt \<noteq> []"
  shows "post_messages env user body st =
     (if env_createThrows env then (Json 500 (Failure ''Internal server error''), st)
      else if env_updateThrows env then
        (Json 500 (Failure ''Internal server error''),
         Message_create (new_message env chatId user receiver (trim txt)) st)
      else
        (Json 201 (SentMessage (new_message env chatId user receiver (trim txt))),
         emit user (ChatUpdated chatId (trim txt) (env_now env))
           (emit receiver (ChatUpdated chatId (trim txt) (env_now env))
             (emit user (MessageNew (new_message env chatId user receiver (trim txt)))
               (emit receiver (MessageNew (new_message env chatId user receiver (trim txt)))
                 (Chat_findByIdAndUpdate chatId (trim txt) (env_now env)
                   (Message_create (new_message env chatId user receiver (trim txt)) st)))))))"
proof -
  have "txt \<noteq> []" using assms(6) by (auto simp: trim_def)
  then show ?thesis
    using assms by (simp add: post_messages_def Let_def new_message_def)
qed

lemma post_messages_201:
  assumes "post_messages env user body st = (Json 201 r, st')"
  obtains chatId receiver tx where
    "b_chatId body = Some chatId" "b_receiver body = Some receiver" "b_text body = Some tx"
    "trim tx \<noteq> []"
    "r = SentMessage (new_message env chatId user receiver (trim tx))"
    "st' = emit user (ChatUpdated chatId (trim tx) (env_now env))
           (emit receiver (ChatUpdated chatId (trim tx) (env_now env))
             (emit user (MessageNew (new_message env chatId user receiver (trim tx)))
               (emit receiver (MessageNew (new_message env chatId user receiver (trim tx)))
                 (Chat_findByIdAndUpdate chatId (trim tx) (env_now env)
                   (Message_create (new_message env chatId user receiver (trim tx)) st)))))"
proof (cases "b_chatId body = None \<or> b_receiver body = None \<or> b_text body = None \<or>
   b_chatId body = Some [] \<or> b_receiver body = Some [] \<or> b_text body = Some [] \<or>
   (\<exists>tx. b_text body = Some tx \<and> trim tx = [])")
  case True
  then have "post_messages env user body st = (Json 400 (Failure ''chatId, receiver, text required''), st)"
    by (rule post_messages_400)
  with assms show ?thesis by simp
next
  case False
  then obtain chatId receiver tx where
    f: "b_chatId body = Some chatId" "b_receiver body = Some receiver" "b_text body = Some tx"
    and n: "chatId \<noteq> []" "receiver \<noteq> []" "trim tx \<noteq> []"
    by auto
  from post_messages_valid [OF f n, of env user st] assms
  have "r = SentMessage (new_message env chatId user receiver (trim tx)) \<and>
    st' = emit user (ChatUpdated chatId (trim tx) (env_now env))
           (emit receiver (ChatUpdated chatId (trim tx) (env_now env))
             (emit user (MessageNew (new_message env chatId user receiver (trim tx)))
               (emit receiver (MessageNew (new_message env chatId user receiver (trim tx)))
                 (Chat_findByIdAndUpdate chatId (trim tx) (env_now env)
                   (Message_create (new_message env chatId user receiver (trim tx)) st)))))"
    by (simp split: if_splits)
  with f n that show ?thesis by blast
qed



lemma findById_set_lastMessage:
  "Chat_findById chatId (set_lastMessage chatId tx at cs) =
     map_option (\<lambda>c. c\<lparr>c_lastMessage := tx, c_updatedAt := at\<rparr>) (Chat_findById chatId cs)"
  by (induction cs) (simp_all add: Chat_findById_def)


lemma example_post:
  "post_messages
      \<lparr>env_now = 1000, env_newId = js ''m1'', env_findThrows = False, env_createThrows = False, env_updateThrows = False\<rparr>
      (js ''u1'')
      \<lparr>b_chatId = Some (js ''c1''), b_receiver = Some (js ''u2''), b_text = Some (js '' hi '')\<rparr>
      \<lparr>messages = [],
       chats = [\<lparr>c_id = js ''c1'', c_participants = [js ''u1'', js ''u2''], c_lastMessage = [], c_updatedAt = 0\<rparr>],
       trace = []\<rparr>
   = (Json 201 (SentMessage \<lparr>m_id = js ''m1'', m_chatId = js ''c1'', m_sender = js ''u1'', m_receiver = js ''u2'',
                               m_text = js ''hi'', m_seen = False, m_createdAt = 1000\<rparr>),
      \<lparr>messages = [\<lparr>m_id = js ''m1'', m_chatId = js ''c1'', m_sender = js ''u1'', m_receiver = js ''u2'',
                               m_text = js ''hi'', m_seen = False, m_createdAt = 1000\<rparr>],
       chats = [\<lparr>c_id = js ''c1'', c_participants = [js ''u1'', js ''u2''], c_lastMessage = js ''hi'', c_updatedAt = 1000\<rparr>],
       trace = [Persisted \<lparr>m_id = js ''m1'', m_chatId = js ''c1'', m_sender = js ''u1'', m_receiver = js ''u2'',
                               m_text = js ''hi'', m_seen = False, m_createdAt = 1000\<rparr>,
                ChatSummarySet (js ''c1'') (js ''hi'') 1000,
                Emitted (js ''u2'') (MessageNew \<lparr>m_id = js ''m1'', m_chatId = js ''c1'', m_sender = js ''u1'', m_receiver = js ''u2'',
                               m_text = js ''hi'', m_seen = False, m_createdAt = 1000\<rparr>),
                Emitted (js ''u1'') (MessageNew \<lparr>m_id = js ''m1'', m_chatId = js ''c1'', m_sender = js ''u1'', m_receiver = js ''u2'',
                               m_text = js ''hi'', m_seen = False, m_createdAt = 1000\<rparr>),
                Emitted (js ''u2'') (ChatUpdated (js ''c1'') (js ''hi'') 1000),
                Emitted (js ''u1'') (ChatUpdated (js ''c1'') (js ''hi'') 1000)]\<rparr>)"
  by (simp add: post_messages_def new_message_def Message_create_def Chat_findByIdAndUpdate_def
      emit_def trim_def isWhiteSpace_def js_def Let_def)


text \<open>
  Claim C10. A \<open>POST /messages\<close> request answered with status 201 for the submitted text
  \<open>tx\<close> has stored a message whose text is \<open>trim tx\<close>; the chat found under the chat
  identifier has \<open>trim tx\<close> as its last message; the four events emitted by the request
  all carry \<open>trim tx\<close>. That text is not empty, neither starts nor ends with white space,
  and is the submitted text without a white-space prefix and a white-space suffix.
\<close>

theorem post_messages_stores_trimmed:
  assumes "post_messages env user body st = (Json 201 r, st')"
    and "b_chatId body = Some chatId" and "b_text body = Some tx"
  shows "\<exists>msg. r = SentMessage msg \<and> m_text msg = trim tx \<and> trim tx \<noteq> []
           \<and> messages st' = messages st @ [msg]
           \<and> Chat_findById chatId (chats st') =
               map_option (\<lambda>c. c\<lparr>c_lastMessage := trim tx, c_updatedAt := env_now env\<rparr>)
                 (Chat_findById chatId (chats st))
           \<and> length (emitted_events (drop (length (trace st)) (trace st'))) = 4
           \<and> list_all (\<lambda>ev. event_text ev = trim tx)
                (emitted_events (drop (length (trace st)) (trace st')))
           \<and> \<not> isWhiteSpace (hd (trim tx)) \<and> \<not> isWhiteSpace (last (trim tx))
           \<and> (\<exists>pre suf. tx = pre @ trim tx @ suf \<and> list_all isWhiteSpace pre \<and> list_all isWhiteSpace suf)"
proof -
  from assms(1) obtain chatId' receiver tx' where
    f: "b_chatId body = Some chatId'" "b_text body = Some tx'"
    and n: "trim tx' \<noteq> []"
    and r: "r = SentMessage (new_message env chatId' user receiver (trim tx'))"
    and s: "st' = emit user (ChatUpdated chatId' (trim tx') (env_now env))
           (emit receiver (ChatUpdated chatId' (trim tx') (env_now env))
             (emit user (MessageNew (new_message env chatId' user receiver (trim tx')))
               (emit receiver (MessageNew (new_message env chatId' user receiver (trim tx')))
                 (Chat_findByIdAndUpdate chatId' (trim tx') (env_now env)
                   (Message_create (new_message env chatId' user receiver (trim tx')) st)))))"
    by (rule post_messages_201)
  from f assms(2,3) have eq: "chatId' = chatId" "tx' = tx" by simp_all
  let ?msg = "new_message env chatId user receiver (trim tx)"
  have 1: "m_text ?msg = trim tx" by (simp add: new_message_def)
  have 2: "messages st' = messages st @ [?msg]"
    unfolding s eq by (simp add: emit_def Message_create_def Chat_findByIdAndUpdate_def)
  have 3: "Chat_findById chatId (chats st') =
               map_option (\<lambda>c. c\<lparr>c_lastMessage := trim tx, c_updatedAt := env_now env\<rparr>)
                 (Chat_findById chatId (chats st))"
    unfolding s eq
    by (simp add: emit_def Message_create_def Chat_findByIdAndUpdate_def findById_set_lastMessage)
  have 4: "emitted_events (drop (length (trace st)) (trace st')) =
     [MessageNew ?msg, MessageNew ?msg,
      ChatUpdated chatId (trim tx) (env_now env), ChatUpdated chatId (trim tx) (env_now env)]"
    unfolding s eq by (simp add: emit_def Message_create_def Chat_findByIdAndUpdate_def)
  have 5: "\<not> isWhiteSpace (hd (trim tx))" "\<not> isWhiteSpace (last (trim tx))"
    using n eq trim_hd trim_last by simp_all
  have 6: "\<exists>pre suf. tx = pre @ trim tx @ suf \<and> list_all isWhiteSpace pre \<and> list_all isWhiteSpace suf"
    by (rule trim_wrapped_in_whitespace)
  show ?thesis
    using r eq n 1 2 3 5 6 by (simp add: 4 new_message_def)
qed

theorem post_messages_stores_trimmed_witness:
  "\<exists>msg. SentMessage \<lparr>m_id = js ''m1'', m_chatId = js ''c1'', m_sender = js ''u1'', m_receiver = js ''u2'',
                               m_text = js ''hi'', m_seen = False, m_createdAt = 1000\<rparr> = SentMessage msg
      \<and> m_text msg = js ''hi'' \<and> trim (js '' hi '') = js ''hi''"
proof -
  have t: "trim (js '' hi '') = js ''hi''"
    by (simp add: trim_def isWhiteSpace_def js_def)
  show ?thesis
    using post_messages_stores_trimmed [OF example_post, of "js ''c1''" "js '' hi ''"] t
    by auto
qed

text \<open>The route of server.mjs and the route of messageRoutes.js reject a blank text.\<close>

lemma post_messages_rejects_blank:
  "b_text body = Some tx \<Longrightarrow> trim tx = [] \<Longrightarrow>
     post_messages env user body st = (Json 400 (Failure ''chatId, receiver, text required''), st)"
  by (rule post_messages_400) blast

lemma post_messages_never_blank:
  "m \<in> set (messages (snd (post_messages env user body st))) \<Longrightarrow>
     m \<in> set (messages st) \<or> trim (m_text m) \<noteq> []"
proof (cases "b_chatId body = None \<or> b_receiver body = None \<or> b_text body = None \<or>
   b_chatId body = Some [] \<or> b_receiver body = Some [] \<or> b_text body = Some [] \<or>
   (\<exists>tx. b_text body = Some tx \<and> trim tx = [])")
  case True
  assume m: "m \<in> set (messages (snd (post_messages env user body st)))"
  from True have "post_messages env user body st = (Json 400 (Failure ''chatId, receiver, text required''), st)"
    by (rule post_messages_400)
  with m show ?thesis by simp
next
  case False
  assume m: "m \<in> set (messages (snd (post_messages env user body st)))"
  from False obtain chatId receiver tx where
    f: "b_chatId body = Some chatId" "b_receiver body = Some receiver" "b_text body = Some tx"
    and n: "chatId \<noteq> []" "receiver \<noteq> []" "trim tx \<noteq> []"
    by auto
  have "trim (m_text (new_message env chatId user receiver (trim tx))) \<noteq> []"
    using n(3) by (simp add: new_message_def trim_idem)
  then show ?thesis
    using m unfolding post_messages_valid [OF f n]
    by (auto simp: emit_def Message_create_def Chat_findByIdAndUpdate_def split: if_splits)
qed

lemma messageRoutes_post_rejects_blank:
  "rb_text body = Some tx \<Longrightarrow> trim tx = [] \<Longrightarrow>
     \<exists>msg. messageRoutes_post isValid env chatId body st = (Json 400 (Failure msg), st)"
  by (simp add: messageRoutes_post_def)

text \<open>
  Claim C9 fails on \<open>sendMessage\<close> of controllers/messageController.js, which tests
  \<open>!text\<close> only: the text of three spaces, empty once trimmed, is answered with status
  201, stored untrimmed and emitted.
\<close>

theorem sendMessage_accepts_blank_text:
  "trim (js ''   '') = []
   \<and> sendMessage
      \<lparr>env_now = 1000, env_newId = js ''m1'', env_findThrows = False, env_createThrows = False, env_updateThrows = False\<rparr>
      (js ''u1'')
      \<lparr>b_chatId = Some (js ''c1''), b_receiver = Some (js ''u2''), b_text = Some (js ''   '')\<rparr>
      \<lparr>messages = [], chats = [], trace = []\<rparr>
   = (Json 201 (SentMessage \<lparr>m_id = js ''m1'', m_chatId = js ''c1'', m_sender = js ''u1'', m_receiver = js ''u2'',
                               m_text = js ''   '', m_seen = False, m_createdAt = 1000\<rparr>),
      \<lparr>messages = [\<lparr>m_id = js ''m1'', m_chatId = js ''c1'', m_sender = js ''u1'', m_receiver = js ''u2'',
                               m_text = js ''   '', m_seen = False, m_createdAt = 1000\<rparr>],
       chats = [],
       trace = [Persisted \<lparr>m_id = js ''m1'', m_chatId = js ''c1'', m_sender = js ''u1'', m_receiver = js ''u2'',
                               m_text = js ''   '', m_seen = False, m_createdAt = 1000\<rparr>,
                ChatSummarySet (js ''c1'') (js ''   '') 1000,
                Emitted (js ''u2'') (NewMessage \<lparr>m_id = js ''m1'', m_chatId = js ''c1'', m_sender = js ''u1'', m_receiver = js ''u2'',
                               m_text = js ''   '', m_seen = False, m_createdAt = 1000\<rparr>)]\<rparr>)"
  by (simp add: sendMessage_def new_message_def Message_create_def Chat_findByIdAndUpdate_def
      emit_def trim_def isWhiteSpace_def js_def Let_def)

section \<open>Marking as seen\<close>

lemma updateMany_seen_length: "length (fst (updateMany_seen chatId user ms)) = length ms"
  by (simp add: updateMany_seen_def)

lemma seen_update_value:
  "(if unseen_for chatId user m then m\<lparr>m_seen := True\<rparr> else m) =
     m\<lparr>m_seen := m_seen m \<or> (m_chatId m = chatId \<and> m_receiver m = user)\<rparr>"
proof (cases "unseen_for chatId user m")
  case True
  then have "(m_seen m \<or> (m_chatId m = chatId \<and> m_receiver m = user)) = True"
    by (simp add: unseen_for_def)
  with True show ?thesis by simp
next
  case False
  then have "(m_seen m \<or> (m_chatId m = chatId \<and> m_receiver m = user)) = m_seen m"
    by (auto simp: unseen_for_def)
  with False show ?thesis by simp
qed

lemma updateMany_seen_nth:
  "i < length ms \<Longrightarrow>
     fst (updateMany_seen chatId user ms) ! i =
       (ms ! i)\<lparr>m_seen := m_seen (ms ! i) \<or> (m_chatId (ms ! i) = chatId \<and> m_receiver (ms ! i) = user)\<rparr>"
  by (simp add: updateMany_seen_def seen_update_value)

lemma seen_update_changes: "m\<lparr>m_seen := True\<rparr> \<noteq> m \<longleftrightarrow> \<not> m_seen m"
proof
  assume "m\<lparr>m_seen := True\<rparr> \<noteq> m"
  show "\<not> m_seen m"
  proof
    assume "m_seen m"
    then have "m\<lparr>m_seen := True\<rparr> = m" by simp
    with \<open>m\<lparr>m_seen := True\<rparr> \<noteq> m\<close> show False by simp
  qed
next
  assume n: "\<not> m_seen m"
  show "m\<lparr>m_seen := True\<rparr> \<noteq> m"
  proof
    assume "m\<lparr>m_seen := True\<rparr> = m"
    then have "m_seen (m\<lparr>m_seen := True\<rparr>) = m_seen m" by simp
    with n show False by simp
  qed
qed

lemma updateMany_seen_count:
  "snd (updateMany_seen chatId user ms) =
     card {i. i < length ms \<and> fst (updateMany_seen chatId user ms) ! i \<noteq> ms ! i}"
proof -
  have "fst (updateMany_seen chatId user ms) ! i \<noteq> ms ! i \<longleftrightarrow> unseen_for chatId user (ms ! i)"
    if "i < length ms" for i
    using that by (simp add: updateMany_seen_def seen_update_changes unseen_for_def)
  then have "{i. i < length ms \<and> fst (updateMany_seen chatId user ms) ! i \<noteq> ms ! i}
      = {i. i < length ms \<and> unseen_for chatId user (ms ! i)}"
    by blast
  then show ?thesis
    by (simp add: updateMany_seen_def length_filter_conv_card)
qed

lemma updateMany_seen_map:
  "fst (updateMany_seen chatId user ms) =
     map (\<lambda>m. m\<lparr>m_seen := m_seen m \<or> (m_chatId m = chatId \<and> m_receiver m = user)\<rparr>) ms"
  by (simp add: updateMany_seen_def seen_update_value)

lemma updateMany_seen_none_left:
  "filter (unseen_for chatId user) (fst (updateMany_seen chatId user ms)) = []"
  unfolding updateMany_seen_map by (induction ms) (simp_all add: unseen_for_def)

lemma updateMany_seen_again:
  "updateMany_seen chatId user (fst (updateMany_seen chatId user ms)) =
     (fst (updateMany_seen chatId user ms), 0)"
proof -
  let ?ms' = "fst (updateMany_seen chatId user ms)"
  have "\<not> unseen_for chatId user m'" if "m' \<in> set ?ms'" for m'
    using updateMany_seen_none_left [of chatId user ms] that by (simp add: filter_empty_conv)
  then have "map (\<lambda>m. if unseen_for chatId user m then m\<lparr>m_seen := True\<rparr> else m) ?ms' = ?ms'"
    by (intro map_idI) simp
  then show ?thesis
    unfolding updateMany_seen_def [of chatId user ?ms']
    by (simp only: updateMany_seen_none_left list.size)
qed

lemma put_messages_seen_ok:
  "\<not> env_updateThrows env \<Longrightarrow>
     put_messages_seen env user chatId st =
       (Json 200 (Updated (snd (updateMany_seen chatId user (messages st)))),
        st\<lparr>messages := fst (updateMany_seen chatId user (messages st)),
           trace := trace st @ [SeenSet chatId user]\<rparr>)"
  by (simp add: put_messages_seen_def split: prod.splits)

lemma markAsSeen_same: "markAsSeen env user chatId st = put_messages_seen env user chatId st"
  by (simp add: markAsSeen_def put_messages_seen_def)

text \<open>
  Claim C7. When the update is not rejected, marking a chat as seen for a user (the route
  of server.mjs and \<open>markAsSeen\<close> of the controller alike) leaves every message in place
  and changes none of its fields but \<open>seen\<close>, which becomes true exactly for the messages
  of that chat addressed to that user and otherwise keeps its value; the count in the
  answer is the number of messages that changed; a second call right after answers 0 and
  leaves messages and chats as they are.
\<close>

theorem markSeen_flips_exactly_unseen:
  assumes "\<not> env_updateThrows env" and "\<not> env_updateThrows env'"
  shows "\<exists>ms' n.
      put_messages_seen env user chatId st =
        (Json 200 (Updated n), st\<lparr>messages := ms', trace := trace st @ [SeenSet chatId user]\<rparr>)
    \<and> markAsSeen env user chatId st = put_messages_seen env user chatId st
    \<and> length ms' = length (messages st)
    \<and> (\<forall>i<length (messages st).
          ms' ! i = (messages st ! i)\<lparr>m_seen :=
             m_seen (messages st ! i) \<or>
             (m_chatId (messages st ! i) = chatId \<and> m_receiver (messages st ! i) = user)\<rparr>)
    \<and> n = card {i. i < length (messages st) \<and> ms' ! i \<noteq> messages st ! i}
    \<and> fst (put_messages_seen env' user chatId (snd (put_messages_seen env user chatId st)))
         = Json 200 (Updated 0)
    \<and> messages (snd (put_messages_seen env' user chatId (snd (put_messages_seen env user chatId st))))
         = ms'
    \<and> chats (snd (put_messages_seen env' user chatId (snd (put_messages_seen env user chatId st))))
         = chats st"
proof -
  define ms' where "ms' = fst (updateMany_seen chatId user (messages st))"
  define n where "n = snd (updateMany_seen chatId user (messages st))"
  define st1 where "st1 = st\<lparr>messages := ms', trace := trace st @ [SeenSet chatId user]\<rparr>"
  have 1: "put_messages_seen env user chatId st = (Json 200 (Updated n), st1)"
    unfolding n_def st1_def ms'_def using assms(1) by (rule put_messages_seen_ok)
  have m1: "messages st1 = ms'" and c1: "chats st1 = chats st"
    by (simp_all add: st1_def)
  have again: "updateMany_seen chatId user ms' = (ms', 0)"
    unfolding ms'_def by (rule updateMany_seen_again)
  have 2: "put_messages_seen env' user chatId st1 =
      (Json 200 (Updated 0), st1\<lparr>messages := ms', trace := trace st1 @ [SeenSet chatId user]\<rparr>)"
    using put_messages_seen_ok [OF assms(2), of user chatId st1]
    by (simp only: m1 again fst_conv snd_conv)
  have 3: "\<forall>i<length (messages st).
          ms' ! i = (messages st ! i)\<lparr>m_seen :=
             m_seen (messages st ! i) \<or>
             (m_chatId (messages st ! i) = chatId \<and> m_receiver (messages st ! i) = user)\<rparr>"
    unfolding ms'_def using updateMany_seen_nth by blast
  have 4: "n = card {i. i < length (messages st) \<and> ms' ! i \<noteq> messages st ! i}"
    unfolding n_def ms'_def by (rule updateMany_seen_count)
  have 5: "length ms' = length (messages st)"
    unfolding ms'_def by (rule updateMany_seen_length)
  have 6: "fst (put_messages_seen env' user chatId (snd (put_messages_seen env user chatId st)))
         = Json 200 (Updated 0)"
    by (simp only: 1 2 fst_conv snd_conv)
  have 7: "messages (snd (put_messages_seen env' user chatId (snd (put_messages_seen env user chatId st))))
         = ms'"
    by (simp only: 1 2 snd_conv) simp
  have 8: "chats (snd (put_messages_seen env' user chatId (snd (put_messages_seen env user chatId st))))
         = chats st"
    by (simp only: 1 2 snd_conv) (simp add: c1)
  have 0: "put_messages_seen env user chatId st =
        (Json 200 (Updated n), st\<lparr>messages := ms', trace := trace st @ [SeenSet chatId user]\<rparr>)"
    using 1 by (simp only: st1_def)
  from 0 markAsSeen_same 5 3 4 6 7 8 show ?thesis by blast
qed

theorem markSeen_flips_exactly_unseen_witness:
  "put_messages_seen
      \<lparr>env_now = 2000, env_newId = [], env_findThrows = False, env_createThrows = False, env_updateThrows = False\<rparr>
      (js ''u2'') (js ''c1'')
      \<lparr>messages =
         [\<lparr>m_id = js ''m1'', m_chatId = js ''c1'', m_sender = js ''u1'', m_receiver = js ''u2'',
           m_text = js ''a'', m_seen = False, m_createdAt = 1\<rparr>,
          \<lparr>m_id = js ''m2'', m_chatId = js ''c1'', m_sender = js ''u2'', m_receiver = js ''u1'',
           m_text = js ''b'', m_seen = False, m_createdAt = 2\<rparr>,
          \<lparr>m_id = js ''m3'', m_chatId = js ''c2'', m_sender = js ''u1'', m_receiver = js ''u2'',
           m_text = js ''c'', m_seen = False, m_createdAt = 3\<rparr>],
       chats = [], trace = []\<rparr>
    = (Json 200 (Updated 1),
       \<lparr>messages =
         [\<lparr>m_id = js ''m1'', m_chatId = js ''c1'', m_sender = js ''u1'', m_receiver = js ''u2'',
           m_text = js ''a'', m_seen = True, m_createdAt = 1\<rparr>,
          \<lparr>m_id = js ''m2'', m_chatId = js ''c1'', m_sender = js ''u2'', m_receiver = js ''u1'',
           m_text = js ''b'', m_seen = False, m_createdAt = 2\<rparr>,
          \<lparr>m_id = js ''m3'', m_chatId = js ''c2'', m_sender = js ''u1'', m_receiver = js ''u2'',
           m_text = js ''c'', m_seen = False, m_createdAt = 3\<rparr>],
       chats = [], trace = [SeenSet (js ''c1'') (js ''u2'')]\<rparr>)
   \<and> fst (put_messages_seen
      \<lparr>env_now = 2000, env_newId = [], env_findThrows = False, env_createThrows = False, env_updateThrows = False\<rparr>
      (js ''u2'') (js ''c1'')
      (snd (put_messages_seen
      \<lparr>env_now = 2000, env_newId = [], env_findThrows = False, env_createThrows = False, env_updateThrows = False\<rparr>
      (js ''u2'') (js ''c1'')
      \<lparr>messages =
         [\<lparr>m_id = js ''m1'', m_chatId = js ''c1'', m_sender = js ''u1'', m_receiver = js ''u2'',
           m_text = js ''a'', m_seen = False, m_createdAt = 1\<rparr>,
          \<lparr>m_id = js ''m2'', m_chatId = js ''c1'', m_sender = js ''u2'', m_receiver = js ''u1'',
           m_text = js ''b'', m_seen = False, m_createdAt = 2\<rparr>,
          \<lparr>m_id = js ''m3'', m_chatId = js ''c2'', m_sender = js ''u1'', m_receiver = js ''u2'',
           m_text = js ''c'', m_seen = False, m_createdAt = 3\<rparr>],
       chats = [], trace = []\<rparr>))) = Json 200 (Updated 0)"
proof -
  have h: "\<not> env_updateThrows
      \<lparr>env_now = 2000, env_newId = [], env_findThrows = False, env_createThrows = False, env_updateThrows = False\<rparr>"
    by simp
  have direct: "put_messages_seen
      \<lparr>env_now = 2000, env_newId = [], env_findThrows = False, env_createThrows = False, env_updateThrows = False\<rparr>
      (js ''u2'') (js ''c1'')
      \<lparr>messages =
         [\<lparr>m_id = js ''m1'', m_chatId = js ''c1'', m_sender = js ''u1'', m_receiver = js ''u2'',
           m_text = js ''a'', m_seen = False, m_createdAt = 1\<rparr>,
          \<lparr>m_id = js ''m2'', m_chatId = js ''c1'', m_sender = js ''u2'', m_receiver = js ''u1'',
           m_text = js ''b'', m_seen = False, m_createdAt = 2\<rparr>,
          \<lparr>m_id = js ''m3'', m_chatId = js ''c2'', m_sender = js ''u1'', m_receiver = js ''u2'',
           m_text = js ''c'', m_seen = False, m_createdAt = 3\<rparr>],
       chats = [], trace = []\<rparr>
    = (Json 200 (Updated 1),
       \<lparr>messages =
         [\<lparr>m_id = js ''m1'', m_chatId = js ''c1'', m_sender = js ''u1'', m_receiver = js ''u2'',
           m_text = js ''a'', m_seen = True, m_createdAt = 1\<rparr>,
          \<lparr>m_id = js ''m2'', m_chatId = js ''c1'', m_sender = js ''u2'', m_receiver = js ''u1'',
           m_text = js ''b'', m_seen = False, m_createdAt = 2\<rparr>,
          \<lparr>m_id = js ''m3'', m_chatId = js ''c2'', m_sender = js ''u1'', m_receiver = js ''u2'',
           m_text = js ''c'', m_seen = False, m_createdAt = 3\<rparr>],
       chats = [], trace = [SeenSet (js ''c1'') (js ''u2'')]\<rparr>)"
    by (simp add: put_messages_seen_def updateMany_seen_def unseen_for_def js_def)
  from markSeen_flips_exactly_unseen [OF h h, of "js ''u2''" "js ''c1''"] direct
  show ?thesis by blast
qed

section \<open>Ensuring a chat\<close>

lemma two_list: "length p = 2 \<Longrightarrow> \<exists>x y. p = [x, y]"
  by (cases p; cases "tl p") auto

lemma both_in_pair:
  assumes "length p = 2" and "a \<noteq> b"
  shows "a \<in> set p \<and> b \<in> set p \<longleftrightarrow> set p = {a, b}"
proof -
  from assms(1) obtain x y where p: "p = [x, y]" using two_list by blast
  show ?thesis using assms(2) unfolding p by auto
qed

lemma find_cong_set:
  "(\<And>x. x \<in> set xs \<Longrightarrow> P x = Q x) \<Longrightarrow> find P xs = find Q xs"
  by (induction xs) auto

lemma findOne_holds_both:
  "Chat_findOne_all [a, b] cs =
     find (\<lambda>c. a \<in> set (c_participants c) \<and> b \<in> set (c_participants c)) cs"
  unfolding Chat_findOne_all_def by (rule find_cong_set) simp

lemma holds_both_pair:
  assumes "two_party st" and "a \<noteq> b"
  shows "find (\<lambda>c. a \<in> set (c_participants c) \<and> b \<in> set (c_participants c)) (chats st)
       = find (\<lambda>c. set (c_participants c) = {a, b}) (chats st)"
proof (rule find_cong_set)
  fix c assume "c \<in> set (chats st)"
  with assms(1) have "length (c_participants c) = 2"
    by (simp add: two_party_def list_all_iff)
  then show "(a \<in> set (c_participants c) \<and> b \<in> set (c_participants c))
      = (set (c_participants c) = {a, b})"
    using assms(2) by (rule both_in_pair)
qed

lemma findOne_symmetric: "Chat_findOne_all [b, a] cs = Chat_findOne_all [a, b] cs"
  unfolding Chat_findOne_all_def by (rule find_cong_set) auto

lemma find_or_create_new:
  "Chat_findOne_all [a, b] (chats st) = None \<Longrightarrow> \<not> env_findThrows env \<Longrightarrow>
   \<not> env_createThrows env \<Longrightarrow>
     find_or_create failure env a b st =
       (Json 200 (EnsuredChat (new_chat env a b)),
        st\<lparr>chats := chats st @ [new_chat env a b],
           trace := trace st @ [ChatCreated (new_chat env a b)]\<rparr>)"
  by (simp add: find_or_create_def Chat_create_def Let_def)

lemma findOne_after_create:
  "Chat_findOne_all [a, b] cs = None \<Longrightarrow>
     Chat_findOne_all [a, b] (cs @ [new_chat env a b]) = Some (new_chat env a b)"
  unfolding Chat_findOne_all_def by (induction cs) (auto simp: new_chat_def split: if_splits)

lemma post_chats_ensure_eq:
  "w \<noteq> [] \<Longrightarrow>
     post_chats_ensure env user (Some w) st = find_or_create ''Internal server error'' env user w st"
  by (simp add: post_chats_ensure_def)

lemma chatRoutes_post_eq:
  "a \<noteq> [] \<Longrightarrow> b \<noteq> [] \<Longrightarrow>
     chatRoutes_post env (Some a) (Some b) st = find_or_create ''Server error'' env a b st"
  by (simp add: chatRoutes_post_def)

lemma find_or_create_found:
  "Chat_findOne_all [a, b] (chats st) = Some c \<Longrightarrow> \<not> env_findThrows env \<Longrightarrow>
     find_or_create failure env a b st = (Json 200 (EnsuredChat c), st)"
  by (simp add: find_or_create_def)

lemma find_or_create_failure_text:
  "\<not> env_findThrows env \<Longrightarrow> \<not> env_createThrows env \<Longrightarrow>
     find_or_create failure env a b st = find_or_create failure' env a b st"
  by (simp add: find_or_create_def)

text \<open>
  Claim C8, as the code has it. When no database call is rejected: if a chat that holds
  both \<open>a\<close> and \<open>b\<close> among its participants exists, the first such chat is returned, for
  \<open>ensure(a, b)\<close> and for \<open>ensure(b, a)\<close> alike, and the store is left as it is;
  otherwise exactly one chat is appended, with participants \<open>[a, b]\<close>, and returned. A
  second call right after, in either order, returns the chat of the first call and creates
  nothing. The route of chatRoutes.js answers as the route of server.mjs, and when every
  chat has two participants before, every chat has two afterwards. For two different
  users, in a store whose chats all have two participants, the chats that hold both are
  exactly the chats whose participants are the pair \<open>{a, b}\<close>.
\<close>

theorem ensureChat_idempotent:
  assumes "a \<noteq> []" and "b \<noteq> []"
    and "\<not> env_findThrows env" and "\<not> env_createThrows env" and "\<not> env_findThrows env'"
  shows
   "(case find (\<lambda>c. a \<in> set (c_participants c) \<and> b \<in> set (c_participants c)) (chats st) of
       Some c \<Rightarrow>
         post_chats_ensure env a (Some b) st = (Json 200 (EnsuredChat c), st) \<and>
         post_chats_ensure env b (Some a) st = (Json 200 (EnsuredChat c), st)
     | None \<Rightarrow>
         post_chats_ensure env a (Some b) st =
           (Json 200 (EnsuredChat (new_chat env a b)),
            st\<lparr>chats := chats st @ [new_chat env a b],
               trace := trace st @ [ChatCreated (new_chat env a b)]\<rparr>) \<and>
         c_participants (new_chat env a b) = [a, b])
    \<and> chatRoutes_post env (Some a) (Some b) st = post_chats_ensure env a (Some b) st
    \<and> post_chats_ensure env' a (Some b) (snd (post_chats_ensure env a (Some b) st))
         = post_chats_ensure env a (Some b) st
    \<and> post_chats_ensure env' b (Some a) (snd (post_chats_ensure env a (Some b) st))
         = post_chats_ensure env a (Some b) st
    \<and> (two_party st \<longrightarrow> two_party (snd (post_chats_ensure env a (Some b) st)))
    \<and> (a \<noteq> b \<and> two_party st \<longrightarrow>
         find (\<lambda>c. a \<in> set (c_participants c) \<and> b \<in> set (c_participants c)) (chats st)
           = find (\<lambda>c. set (c_participants c) = {a, b}) (chats st))"
proof -
  have routes: "chatRoutes_post env (Some a) (Some b) st = post_chats_ensure env a (Some b) st"
    using assms(1,2) find_or_create_failure_text [OF assms(3,4)]
    by (simp add: chatRoutes_post_eq post_chats_ensure_eq)
  have pair: "a \<noteq> b \<and> two_party st \<longrightarrow>
         find (\<lambda>c. a \<in> set (c_participants c) \<and> b \<in> set (c_participants c)) (chats st)
           = find (\<lambda>c. set (c_participants c) = {a, b}) (chats st)"
    using holds_both_pair by blast
  show ?thesis
  proof (cases "find (\<lambda>c. a \<in> set (c_participants c) \<and> b \<in> set (c_participants c)) (chats st)")
    case None
    let ?c = "new_chat env a b"
    let ?st1 = "st\<lparr>chats := chats st @ [?c], trace := trace st @ [ChatCreated ?c]\<rparr>"
    have f: "Chat_findOne_all [a, b] (chats st) = None"
      using None by (simp only: findOne_holds_both)
    have first: "post_chats_ensure env a (Some b) st = (Json 200 (EnsuredChat ?c), ?st1)"
      using find_or_create_new [OF f assms(3,4)] assms(2) by (simp add: post_chats_ensure_eq)
    have f1: "Chat_findOne_all [a, b] (chats ?st1) = Some ?c"
      using findOne_after_create [OF f] by simp
    then have f2: "Chat_findOne_all [b, a] (chats ?st1) = Some ?c"
      by (simp only: findOne_symmetric)
    have second: "post_chats_ensure env' a (Some b) ?st1 = (Json 200 (EnsuredChat ?c), ?st1)"
      using find_or_create_found [OF f1 assms(5)] assms(2) by (simp add: post_chats_ensure_eq)
    have second': "post_chats_ensure env' b (Some a) ?st1 = (Json 200 (EnsuredChat ?c), ?st1)"
      using find_or_create_found [OF f2 assms(5)] assms(1) by (simp add: post_chats_ensure_eq)
    have tp: "two_party st \<longrightarrow> two_party ?st1"
      by (simp add: two_party_def new_chat_def)
    have parts: "c_participants ?c = [a, b]" by (simp add: new_chat_def)
    show ?thesis
      unfolding None option.case first snd_conv
      using second second' tp routes parts first pair [unfolded None] by simp
  next
    case (Some c)
    have f: "Chat_findOne_all [a, b] (chats st) = Some c"
      using Some by (simp only: findOne_holds_both)
    then have f': "Chat_findOne_all [b, a] (chats st) = Some c"
      by (simp only: findOne_symmetric)
    have first: "post_chats_ensure env a (Some b) st = (Json 200 (EnsuredChat c), st)"
      using find_or_create_found [OF f assms(3)] assms(2) by (simp add: post_chats_ensure_eq)
    have first': "post_chats_ensure env b (Some a) st = (Json 200 (EnsuredChat c), st)"
      using find_or_create_found [OF f' assms(3)] assms(1) by (simp add: post_chats_ensure_eq)
    have second: "post_chats_ensure env' a (Some b) st = (Json 200 (EnsuredChat c), st)"
      using find_or_create_found [OF f assms(5)] assms(2) by (simp add: post_chats_ensure_eq)
    have second': "post_chats_ensure env' b (Some a) st = (Json 200 (EnsuredChat c), st)"
      using find_or_create_found [OF f' assms(5)] assms(1) by (simp add: post_chats_ensure_eq)
    show ?thesis
      unfolding Some option.case first snd_conv
      using first first' second second' routes pair [unfolded Some] by simp
  qed
qed

theorem ensureChat_idempotent_witness:
  "post_chats_ensure
      \<lparr>env_now = 5000, env_newId = js ''c9'', env_findThrows = False, env_createThrows = False, env_updateThrows = False\<rparr>
      (js ''u3'') (Some (js ''u1''))
      \<lparr>messages = [], chats = [\<lparr>c_id = js ''c1'', c_participants = [js ''u1'', js ''u2''], c_lastMessage = [], c_updatedAt = 100\<rparr>,
          \<lparr>c_id = js ''c2'', c_participants = [js ''u1'', js ''u3''], c_lastMessage = [], c_updatedAt = 200\<rparr>], trace = []\<rparr>
    = (Json 200 (EnsuredChat \<lparr>c_id = js ''c2'', c_participants = [js ''u1'', js ''u3''], c_lastMessage = [], c_updatedAt = 200\<rparr>),
       \<lparr>messages = [], chats = [\<lparr>c_id = js ''c1'', c_participants = [js ''u1'', js ''u2''], c_lastMessage = [], c_updatedAt = 100\<rparr>,
          \<lparr>c_id = js ''c2'', c_participants = [js ''u1'', js ''u3''], c_lastMessage = [], c_updatedAt = 200\<rparr>], trace = []\<rparr>)
   \<and> post_chats_ensure
      \<lparr>env_now = 5000, env_newId = js ''c9'', env_findThrows = False, env_createThrows = False, env_updateThrows = False\<rparr>
      (js ''u2'') (Some (js ''u3''))
      \<lparr>messages = [], chats = [\<lparr>c_id = js ''c1'', c_participants = [js ''u1'', js ''u2''], c_lastMessage = [], c_updatedAt = 100\<rparr>,
          \<lparr>c_id = js ''c2'', c_participants = [js ''u1'', js ''u3''], c_lastMessage = [], c_updatedAt = 200\<rparr>], trace = []\<rparr>
    = (Json 200 (EnsuredChat \<lparr>c_id = js ''c9'', c_participants = [js ''u2'', js ''u3''], c_lastMessage = [], c_updatedAt = 5000\<rparr>),
       \<lparr>messages = [], chats = [\<lparr>c_id = js ''c1'', c_participants = [js ''u1'', js ''u2''], c_lastMessage = [], c_updatedAt = 100\<rparr>,
          \<lparr>c_id = js ''c2'', c_participants = [js ''u1'', js ''u3''], c_lastMessage = [], c_updatedAt = 200\<rparr>,
          \<lparr>c_id = js ''c9'', c_participants = [js ''u2'', js ''u3''], c_lastMessage = [], c_updatedAt = 5000\<rparr>],
       trace = [ChatCreated \<lparr>c_id = js ''c9'', c_participants = [js ''u2'', js ''u3''], c_lastMessage = [], c_updatedAt = 5000\<rparr>]\<rparr>)
   \<and> find (\<lambda>c. set (c_participants c) = {js ''u1'', js ''u3''}) (chats
      \<lparr>messages = [], chats = [\<lparr>c_id = js ''c1'', c_participants = [js ''u1'', js ''u2''], c_lastMessage = [], c_updatedAt = 100\<rparr>,
          \<lparr>c_id = js ''c2'', c_participants = [js ''u1'', js ''u3''], c_lastMessage = [], c_updatedAt = 200\<rparr>], trace = []\<rparr>)
    = Some \<lparr>c_id = js ''c2'', c_participants = [js ''u1'', js ''u3''], c_lastMessage = [], c_updatedAt = 200\<rparr>"
proof -
  have tp: "two_party \<lparr>messages = [], chats = [\<lparr>c_id = js ''c1'', c_participants = [js ''u1'', js ''u2''], c_lastMessage = [], c_updatedAt = 100\<rparr>,
          \<lparr>c_id = js ''c2'', c_participants = [js ''u1'', js ''u3''], c_lastMessage = [], c_updatedAt = 200\<rparr>], trace = []\<rparr>"
    by (simp add: two_party_def)
  have ne: "js ''u1'' \<noteq> []" "js ''u2'' \<noteq> []" "js ''u3'' \<noteq> []"
       "js ''u1'' \<noteq> js ''u3''" "js ''u2'' \<noteq> js ''u3''" "js ''u1'' \<noteq> js ''u2''"
    by (simp_all add: js_def)
  have e: "\<not> env_findThrows \<lparr>env_now = 5000, env_newId = js ''c9'', env_findThrows = False, env_createThrows = False, env_updateThrows = False\<rparr>"
      "\<not> env_createThrows \<lparr>env_now = 5000, env_newId = js ''c9'', env_findThrows = False, env_createThrows = False, env_updateThrows = False\<rparr>"
    by simp_all
  show ?thesis
    using ensureChat_idempotent [OF ne(1) ne(3) e(1) e(2) e(1),
        of "\<lparr>messages = [], chats = [\<lparr>c_id = js ''c1'', c_participants = [js ''u1'', js ''u2''], c_lastMessage = [], c_updatedAt = 100\<rparr>,
          \<lparr>c_id = js ''c2'', c_participants = [js ''u1'', js ''u3''], c_lastMessage = [], c_updatedAt = 200\<rparr>], trace = []\<rparr>"]
      ensureChat_idempotent [OF ne(2) ne(3) e(1) e(2) e(1),
        of "\<lparr>messages = [], chats = [\<lparr>c_id = js ''c1'', c_participants = [js ''u1'', js ''u2''], c_lastMessage = [], c_updatedAt = 100\<rparr>,
          \<lparr>c_id = js ''c2'', c_participants = [js ''u1'', js ''u3''], c_lastMessage = [], c_updatedAt = 200\<rparr>], trace = []\<rparr>"]
      tp ne
    by (simp add: new_chat_def)
qed

text \<open>
  Claim C8 as stated fails when a user ensures a chat with itself: the store holds no chat
  whose participants are \<open>u1\<close> alone, yet no chat is created, and the chat of \<open>u1\<close> with
  \<open>u2\<close> is returned, since \<open>$all: [u1, u1]\<close> accepts every chat that holds \<open>u1\<close>.
\<close>

theorem ensure_self_counterexample:
  "find (\<lambda>c. set (c_participants c) = {js ''u1'', js ''u1''}) (chats
      \<lparr>messages = [], chats = [\<lparr>c_id = js ''c1'', c_participants = [js ''u1'', js ''u2''], c_lastMessage = [], c_updatedAt = 100\<rparr>,
          \<lparr>c_id = js ''c2'', c_participants = [js ''u1'', js ''u3''], c_lastMessage = [], c_updatedAt = 200\<rparr>], trace = []\<rparr>) = None
   \<and> post_chats_ensure
      \<lparr>env_now = 5000, env_newId = js ''c9'', env_findThrows = False, env_createThrows = False, env_updateThrows = False\<rparr>
      (js ''u1'') (Some (js ''u1''))
      \<lparr>messages = [], chats = [\<lparr>c_id = js ''c1'', c_participants = [js ''u1'', js ''u2''], c_lastMessage = [], c_updatedAt = 100\<rparr>,
          \<lparr>c_id = js ''c2'', c_participants = [js ''u1'', js ''u3''], c_lastMessage = [], c_updatedAt = 200\<rparr>], trace = []\<rparr>
    = (Json 200 (EnsuredChat \<lparr>c_id = js ''c1'', c_participants = [js ''u1'', js ''u2''], c_lastMessage = [], c_updatedAt = 100\<rparr>),
       \<lparr>messages = [], chats = [\<lparr>c_id = js ''c1'', c_participants = [js ''u1'', js ''u2''], c_lastMessage = [], c_updatedAt = 100\<rparr>,
          \<lparr>c_id = js ''c2'', c_participants = [js ''u1'', js ''u3''], c_lastMessage = [], c_updatedAt = 200\<rparr>], trace = []\<rparr>)"
  by (simp add: post_chats_ensure_def find_or_create_def Chat_findOne_all_def js_def)

lemma two_party_empty_store: "two_party empty_store"
  by (simp add: two_party_def empty_store_def)

text \<open>The other handlers keep the participants of every chat.\<close>

lemma set_lastMessage_participants:
  "map c_participants (set_lastMessage chatId tx at cs) = map c_participants cs"
  by (induction cs) simp_all

lemma two_party_participants:
  "two_party st \<longleftrightarrow> list_all (\<lambda>p. length p = 2) (map c_participants (chats st))"
  by (simp add: two_party_def list_all_iff)

lemma post_messages_two_party:
  "two_party st \<Longrightarrow> two_party (snd (post_messages env user body st))"
proof (cases "b_chatId body = None \<or> b_receiver body = None \<or> b_text body = None \<or>
   b_chatId body = Some [] \<or> b_receiver body = Some [] \<or> b_text body = Some [] \<or>
   (\<exists>tx. b_text body = Some tx \<and> trim tx = [])")
  case True
  assume tp: "two_party st"
  from True have "post_messages env user body st = (Json 400 (Failure ''chatId, receiver, text required''), st)"
    by (rule post_messages_400)
  with tp show ?thesis by simp
next
  case False
  assume tp: "two_party st"
  from False obtain chatId receiver tx where
    f: "b_chatId body = Some chatId" "b_receiver body = Some receiver" "b_text body = Some tx"
    and n: "chatId \<noteq> []" "receiver \<noteq> []" "trim tx \<noteq> []"
    by auto
  show ?thesis
    using tp unfolding post_messages_valid [OF f n]
    by (simp add: two_party_participants emit_def Message_create_def Chat_findByIdAndUpdate_def
        set_lastMessage_participants)
qed

lemma put_messages_seen_two_party:
  "two_party st \<Longrightarrow> two_party (snd (put_messages_seen env user chatId st))"
  by (simp add: put_messages_seen_def two_party_def split: prod.splits)

section \<open>Message history: pages\<close>

lemma desc_sorted: "sorted (map (\<lambda>m. - m_createdAt m) (sort_createdAt_desc ms))"
  by (simp add: sort_createdAt_desc_def)

lemma ascending_of_rev_desc:
  fixes f :: "'a \<Rightarrow> int"
  shows "sorted (map (\<lambda>m. - f m) ys) \<Longrightarrow> sorted (map f (rev ys))"
  by (simp add: sorted_map sorted_wrt_rev)

lemma history_page_sorted: "sorted (map m_createdAt (history_page chatId before limit ms))"
proof -
  have "sorted (map (\<lambda>m. - m_createdAt m)
          (take (nat \<bar>page_size limit\<bar>) (sort_createdAt_desc (filter (matches_history chatId before) ms))))"
    using desc_sorted by (simp add: take_map [symmetric])
  then show ?thesis
    unfolding history_page_def mongo_limit_def by (rule ascending_of_rev_desc)
qed

lemma history_page_length: "length (history_page chatId before limit ms) \<le> nat \<bar>page_size limit\<bar>"
  by (simp add: history_page_def mongo_limit_def)

lemma page_size_default: "page_size None = 50" "page_size (Some 0) = 50"
  by (simp_all add: page_size_def)

lemma page_size_positive: "1 \<le> n \<Longrightarrow> page_size (Some n) = min n 100"
  by (simp add: page_size_def)

lemma history_page_subset:
  "set (history_page chatId before limit ms) \<subseteq> {m \<in> set ms. matches_history chatId before m}"
proof -
  have "set (take (nat \<bar>page_size limit\<bar>) (sort_createdAt_desc (filter (matches_history chatId before) ms)))
        \<subseteq> set (sort_createdAt_desc (filter (matches_history chatId before) ms))"
    by (rule set_take_subset)
  then show ?thesis
    by (simp add: history_page_def mongo_limit_def sort_createdAt_desc_def)
qed

lemma filter_below_nth:
  fixes f :: "'a \<Rightarrow> int"
  shows "sorted_wrt (\<lambda>a b. f b < f a) ys \<Longrightarrow> j < length ys \<Longrightarrow>
           filter (\<lambda>m. f m < f (ys ! j)) ys = drop (Suc j) ys"
proof (induction ys arbitrary: j)
  case Nil
  then show ?case by simp
next
  case (Cons y ys)
  show ?case
  proof (cases j)
    case 0
    have "\<forall>m\<in>set ys. f m < f y" using Cons.prems(1) by simp
    then have "filter (\<lambda>m. f m < f y) ys = ys" by (simp add: filter_id_conv)
    then show ?thesis using 0 by simp
  next
    case (Suc k)
    then have k: "k < length ys" using Cons.prems(2) by simp
    then have "ys ! k \<in> set ys" by simp
    then have "f (ys ! k) < f y" using Cons.prems(1) by simp
    then have "\<not> f y < f (ys ! k)" by simp
    moreover have "filter (\<lambda>m. f m < f (ys ! k)) ys = drop (Suc k) ys"
      using Cons.IH [OF _ k] Cons.prems(1) by simp
    ultimately show ?thesis using Suc by simp
  qed
qed

lemma distinct_map_sort_key:
  "distinct (map f (sort_key g xs)) = distinct (map f xs)"
  by (simp add: distinct_map)

lemma strictly_descending:
  assumes "distinct (map m_createdAt xs)"
  shows "sorted_wrt (\<lambda>a b. m_createdAt b < m_createdAt a) (sort_createdAt_desc xs)"
proof -
  let ?k = "\<lambda>m. - m_createdAt m"
  have "distinct (map m_createdAt (sort_createdAt_desc xs))"
    using assms by (simp add: sort_createdAt_desc_def distinct_map_sort_key)
  then have "distinct (map uminus (map m_createdAt (sort_createdAt_desc xs)))"
    by (simp add: distinct_map del: map_map)
  then have "distinct (map ?k (sort_createdAt_desc xs))"
    by (simp add: comp_def)
  with desc_sorted [of xs] have "sorted_wrt (<) (map ?k (sort_createdAt_desc xs))"
    by (simp add: strict_sorted_iff)
  then show ?thesis by (simp add: sorted_wrt_map)
qed

lemma older_filter:
  assumes "matches_history chatId before m0"
  shows "filter (matches_history chatId (Some (m_createdAt m0))) ms =
         filter (\<lambda>m. m_createdAt m < m_createdAt m0) (filter (matches_history chatId before) ms)"
proof -
  have *: "matches_history chatId (Some (m_createdAt m0)) m \<longleftrightarrow>
        matches_history chatId before m \<and> m_createdAt m < m_createdAt m0" for m
    using assms by (cases before) (auto simp: matches_history_def)
  have "filter (matches_history chatId (Some (m_createdAt m0))) ms =
        filter (\<lambda>m. matches_history chatId before m \<and> m_createdAt m < m_createdAt m0) ms"
    by (rule filter_cong) (simp_all add: *)
  then show ?thesis by (simp add: conj_commute)
qed

lemma two_pages_contiguous:
  assumes d: "distinct (map m_createdAt (filter (matches_history chatId before) ms))"
    and ne: "history_page chatId before limit1 ms \<noteq> []"
  shows "history_page chatId (Some (m_createdAt (hd (history_page chatId before limit1 ms)))) limit2 ms
           @ history_page chatId before limit1 ms
         = rev (take (nat \<bar>page_size limit1\<bar> + nat \<bar>page_size limit2\<bar>)
                  (sort_createdAt_desc (filter (matches_history chatId before) ms)))"
proof -
  define base where "base = filter (matches_history chatId before) ms"
  define desc where "desc = sort_createdAt_desc base"
  define k1 where "k1 = nat \<bar>page_size limit1\<bar>"
  define k2 where "k2 = nat \<bar>page_size limit2\<bar>"
  define n1 where "n1 = min k1 (length desc)"
  have p1: "history_page chatId before limit1 ms = rev (take k1 desc)"
    by (simp add: history_page_def mongo_limit_def base_def desc_def k1_def)
  have tk: "take k1 desc = take n1 desc"
    by (simp add: n1_def min_def)
  have len: "length (take n1 desc) = n1"
    by (simp add: n1_def)
  have pos: "0 < n1"
    using ne p1 tk len by (cases n1) auto
  have n1_le: "n1 \<le> length desc" by (simp add: n1_def)
  have hd1: "hd (history_page chatId before limit1 ms) = desc ! (n1 - 1)"
  proof -
    have "take n1 desc \<noteq> []" using pos len by auto
    then have "hd (rev (take n1 desc)) = last (take n1 desc)" by (simp add: hd_rev)
    also have "\<dots> = take n1 desc ! (n1 - 1)"
      using \<open>take n1 desc \<noteq> []\<close> len by (simp add: last_conv_nth)
    also have "\<dots> = desc ! (n1 - 1)" using pos by simp
    finally show ?thesis by (simp add: p1 tk)
  qed
  define m0 where "m0 = desc ! (n1 - 1)"
  have j: "n1 - 1 < length desc" using pos n1_le by simp
  then have "m0 \<in> set desc" by (simp add: m0_def)
  then have "m0 \<in> set base" by (simp add: desc_def sort_createdAt_desc_def)
  then have m0: "matches_history chatId before m0" by (simp add: base_def)
  have strict: "sorted_wrt (\<lambda>a b. m_createdAt b < m_createdAt a) desc"
    unfolding desc_def using d [folded base_def] by (rule strictly_descending)
  have "filter (\<lambda>m. m_createdAt m < m_createdAt (desc ! (n1 - 1))) desc = drop (Suc (n1 - 1)) desc"
    using strict j by (rule filter_below_nth)
  then have below: "filter (\<lambda>m. m_createdAt m < m_createdAt m0) desc = drop n1 desc"
    using pos by (simp add: m0_def)
  have "sort_createdAt_desc (filter (matches_history chatId (Some (m_createdAt m0))) ms)
        = sort_createdAt_desc (filter (\<lambda>m. m_createdAt m < m_createdAt m0) base)"
    using older_filter [OF m0] by (simp add: base_def)
  also have "\<dots> = filter (\<lambda>m. m_createdAt m < m_createdAt m0) desc"
    by (simp add: desc_def sort_createdAt_desc_def filter_sort)
  also have "\<dots> = drop n1 desc" by (rule below)
  finally have p2: "history_page chatId (Some (m_createdAt m0)) limit2 ms = rev (take k2 (drop n1 desc))"
    by (simp add: history_page_def mongo_limit_def k2_def)
  have "rev (take k2 (drop n1 desc)) @ rev (take n1 desc) = rev (take (n1 + k2) desc)"
    by (simp add: take_add rev_append [symmetric] del: rev_append)
  moreover have "take (n1 + k2) desc = take (k1 + k2) desc"
    by (cases "k1 \<le> length desc") (simp_all add: n1_def min_def)
  ultimately have cat: "rev (take k2 (drop n1 desc)) @ rev (take n1 desc) = rev (take (k1 + k2) desc)"
    by simp
  have p2': "history_page chatId (Some (m_createdAt (hd (history_page chatId before limit1 ms)))) limit2 ms
      = rev (take k2 (drop n1 desc))"
    using p2 by (simp only: hd1 m0_def)
  have "history_page chatId (Some (m_createdAt (hd (history_page chatId before limit1 ms)))) limit2 ms
           @ history_page chatId before limit1 ms
        = rev (take k2 (drop n1 desc)) @ history_page chatId before limit1 ms"
    by (simp only: p2')
  also have "\<dots> = rev (take k2 (drop n1 desc)) @ rev (take n1 desc)"
    by (simp only: p1 tk)
  also have "\<dots> = rev (take (k1 + k2) desc)"
    by (rule cat)
  finally show ?thesis
    by (simp only: desc_def base_def k1_def k2_def)
qed

lemma next_page_older:
  assumes ne: "history_page chatId before limit1 ms \<noteq> []"
    and m2: "m2 \<in> set (history_page chatId (Some (m_createdAt (hd (history_page chatId before limit1 ms)))) limit2 ms)"
    and m1: "m1 \<in> set (history_page chatId before limit1 ms)"
  shows "m_createdAt m2 < m_createdAt m1"
proof -
  let ?p1 = "history_page chatId before limit1 ms"
  have "m_createdAt m2 < m_createdAt (hd ?p1)"
    using m2 history_page_subset [of chatId "Some (m_createdAt (hd ?p1))" limit2 ms]
    by (auto simp: matches_history_def)
  moreover have "m_createdAt (hd ?p1) \<le> m_createdAt m1"
  proof -
    obtain x xs where p: "?p1 = x # xs" using ne by (cases ?p1) auto
    have "sorted (map m_createdAt (x # xs))"
      using history_page_sorted [of chatId before limit1 ms] by (simp only: p)
    then have "\<forall>y\<in>set xs. m_createdAt x \<le> m_createdAt y" by simp
    then show ?thesis using m1 unfolding p by auto
  qed
  ultimately show ?thesis by simp
qed

lemma left_out_is_older:
  assumes d: "distinct (map m_createdAt (filter (matches_history chatId before) ms))"
    and ne: "history_page chatId before limit1 ms \<noteq> []"
    and m: "m \<in> set ms" "matches_history chatId before m"
    and out: "m \<notin> set (history_page chatId before limit1 ms)"
      "m \<notin> set (history_page chatId (Some (m_createdAt (hd (history_page chatId before limit1 ms)))) limit2 ms)"
    and m': "m' \<in> set (history_page chatId before limit1 ms) \<union>
                  set (history_page chatId (Some (m_createdAt (hd (history_page chatId before limit1 ms)))) limit2 ms)"
  shows "m_createdAt m < m_createdAt m'"
proof -
  define desc where "desc = sort_createdAt_desc (filter (matches_history chatId before) ms)"
  define K where "K = nat \<bar>page_size limit1\<bar> + nat \<bar>page_size limit2\<bar>"
  have cat: "history_page chatId (Some (m_createdAt (hd (history_page chatId before limit1 ms)))) limit2 ms
           @ history_page chatId before limit1 ms = rev (take K desc)"
    unfolding desc_def K_def using d ne by (rule two_pages_contiguous)
  have pages: "set (history_page chatId before limit1 ms) \<union>
        set (history_page chatId (Some (m_createdAt (hd (history_page chatId before limit1 ms)))) limit2 ms)
        = set (take K desc)"
    using arg_cong [OF cat, of set] by auto
  have "m \<in> set desc"
    using m by (simp add: desc_def sort_createdAt_desc_def)
  then have "m \<in> set (take K desc) \<union> set (drop K desc)"
    by (simp only: set_append [symmetric] append_take_drop_id)
  with out pages have md: "m \<in> set (drop K desc)" by blast
  have m't: "m' \<in> set (take K desc)" using m' pages by simp
  have "sorted_wrt (\<lambda>a b. m_createdAt b < m_createdAt a) (take K desc @ drop K desc)"
    using strictly_descending [OF d] by (simp only: append_take_drop_id desc_def)
  then show ?thesis
    using md m't by (simp only: sorted_wrt_append)
qed

lemma get_messages_ok:
  "\<not> env_findThrows env \<Longrightarrow>
     get_messages env chatId \<lparr>q_before = map_option Date before, q_limit = limit\<rparr> st =
       Json 200 (MessageList (history_page chatId before limit (messages st)))"
  by (cases before) (simp_all add: get_messages_def)

text \<open>
  Claim C6, as the code has it. A page of \<open>GET /messages/:chatId\<close> holds at most 50
  messages when \<open>limit\<close> is absent or 0, and at most \<open>min(limit, 100)\<close> when \<open>limit\<close> is
  at least 1; it is in ascending order of \<open>createdAt\<close>, holds messages of the chat only,
  and with \<open>before\<close> only messages created strictly earlier. A second page asked with
  \<open>before\<close> set to the earliest \<open>createdAt\<close> of a first, non-empty page holds strictly
  older messages than the first page and shares none with it. When moreover the selected
  messages have pairwise different \<open>createdAt\<close>, nothing lies between or inside the two
  pages unreturned: together they are the newest messages in ascending order, and every
  selected message left out is older than every message returned.
\<close>

theorem history_pagination:
  fixes chatId :: js_string and before :: "int option" and limit limit' :: "int option"
    and ms :: "message list"
  defines "page1 \<equiv> history_page chatId before limit ms"
  defines "page2 \<equiv> history_page chatId (Some (m_createdAt (hd page1))) limit' ms"
  shows
   "length (history_page chatId before None ms) \<le> 50
  \<and> length (history_page chatId before (Some 0) ms) \<le> 50
  \<and> (1 \<le> n \<longrightarrow> length (history_page chatId before (Some n) ms) \<le> nat (min n 100))
  \<and> sorted (map m_createdAt page1)
  \<and> (\<forall>m\<in>set page1. m \<in> set ms \<and> m_chatId m = chatId \<and>
        (\<forall>b. before = Some b \<longrightarrow> m_createdAt m < b))
  \<and> (page1 \<noteq> [] \<longrightarrow>
        (\<forall>m2\<in>set page2. \<forall>m1\<in>set page1. m_createdAt m2 < m_createdAt m1) \<and>
        set page1 \<inter> set page2 = {})
  \<and> (page1 \<noteq> [] \<and> distinct (map m_createdAt (filter (matches_history chatId before) ms)) \<longrightarrow>
        page2 @ page1 =
          rev (take (nat \<bar>page_size limit\<bar> + nat \<bar>page_size limit'\<bar>)
                 (sort_createdAt_desc (filter (matches_history chatId before) ms))) \<and>
        (\<forall>m\<in>set ms. matches_history chatId before m \<and> m \<notin> set page1 \<and> m \<notin> set page2 \<longrightarrow>
           (\<forall>m'\<in>set page1 \<union> set page2. m_createdAt m < m_createdAt m')))
  \<and> (\<not> env_findThrows env \<longrightarrow>
        get_messages env chatId \<lparr>q_before = map_option Date before, q_limit = limit\<rparr> st =
          Json 200 (MessageList (history_page chatId before limit (messages st))))"
proof -
  have a: "length (history_page chatId before None ms) \<le> 50"
    "length (history_page chatId before (Some 0) ms) \<le> 50"
    using history_page_length [of chatId before None ms]
      history_page_length [of chatId before "Some 0" ms]
    by (simp_all add: page_size_default)
  have b: "1 \<le> n \<longrightarrow> length (history_page chatId before (Some n) ms) \<le> nat (min n 100)"
    using history_page_length [of chatId before "Some n" ms]
    by (auto simp: page_size_positive)
  have c: "sorted (map m_createdAt page1)"
    unfolding page1_def by (rule history_page_sorted)
  have d: "\<forall>m\<in>set page1. m \<in> set ms \<and> m_chatId m = chatId \<and>
        (\<forall>b. before = Some b \<longrightarrow> m_createdAt m < b)"
    using history_page_subset [of chatId before limit ms]
    unfolding page1_def by (auto simp: matches_history_def)
  have e1: "\<forall>m2\<in>set page2. \<forall>m1\<in>set page1. m_createdAt m2 < m_createdAt m1" if "page1 \<noteq> []"
    using that next_page_older unfolding page1_def page2_def by blast
  have e2: "set page1 \<inter> set page2 = {}" if "page1 \<noteq> []"
    using e1 [OF that] by fastforce
  have f1: "page2 @ page1 =
          rev (take (nat \<bar>page_size limit\<bar> + nat \<bar>page_size limit'\<bar>)
                 (sort_createdAt_desc (filter (matches_history chatId before) ms)))"
    if "page1 \<noteq> []" "distinct (map m_createdAt (filter (matches_history chatId before) ms))"
    unfolding page1_def page2_def using that(2) that(1) [unfolded page1_def]
    by (rule two_pages_contiguous)
  have f2: "\<forall>m\<in>set ms. matches_history chatId before m \<and> m \<notin> set page1 \<and> m \<notin> set page2 \<longrightarrow>
           (\<forall>m'\<in>set page1 \<union> set page2. m_createdAt m < m_createdAt m')"
    if "page1 \<noteq> []" "distinct (map m_createdAt (filter (matches_history chatId before) ms))"
    using left_out_is_older [OF that(2) that(1) [unfolded page1_def]]
    unfolding page1_def page2_def by blast
  have g: "\<not> env_findThrows env \<longrightarrow>
        get_messages env chatId \<lparr>q_before = map_option Date before, q_limit = limit\<rparr> st =
          Json 200 (MessageList (history_page chatId before limit (messages st)))"
    using get_messages_ok by blast
  from a b c d e1 e2 f1 f2 g show ?thesis by blast
qed

theorem history_pagination_witness:
  "history_page (js ''c1'') None (Some 2)
      [\<lparr>m_id = js ''m1'', m_chatId = js ''c1'', m_sender = js ''u1'', m_receiver = js ''u2'', m_text = js ''x'', m_seen = False, m_createdAt = 10\<rparr>,
       \<lparr>m_id = js ''m2'', m_chatId = js ''c1'', m_sender = js ''u1'', m_receiver = js ''u2'', m_text = js ''x'', m_seen = False, m_createdAt = 20\<rparr>,
       \<lparr>m_id = js ''m3'', m_chatId = js ''c1'', m_sender = js ''u1'', m_receiver = js ''u2'', m_text = js ''x'', m_seen = False, m_createdAt = 30\<rparr>,
       \<lparr>m_id = js ''m4'', m_chatId = js ''c1'', m_sender = js ''u1'', m_receiver = js ''u2'', m_text = js ''x'', m_seen = False, m_createdAt = 40\<rparr>,
       \<lparr>m_id = js ''m5'', m_chatId = js ''c1'', m_sender = js ''u1'', m_receiver = js ''u2'', m_text = js ''x'', m_seen = False, m_createdAt = 50\<rparr>]
    = [\<lparr>m_id = js ''m4'', m_chatId = js ''c1'', m_sender = js ''u1'', m_receiver = js ''u2'', m_text = js ''x'', m_seen = False, m_createdAt = 40\<rparr>,
       \<lparr>m_id = js ''m5'', m_chatId = js ''c1'', m_sender = js ''u1'', m_receiver = js ''u2'', m_text = js ''x'', m_seen = False, m_createdAt = 50\<rparr>]
   \<and> history_page (js ''c1'') (Some 40) (Some 2)
      [\<lparr>m_id = js ''m1'', m_chatId = js ''c1'', m_sender = js ''u1'', m_receiver = js ''u2'', m_text = js ''x'', m_seen = False, m_createdAt = 10\<rparr>,
       \<lparr>m_id = js ''m2'', m_chatId = js ''c1'', m_sender = js ''u1'', m_receiver = js ''u2'', m_text = js ''x'', m_seen = False, m_createdAt = 20\<rparr>,
       \<lparr>m_id = js ''m3'', m_chatId = js ''c1'', m_sender = js ''u1'', m_receiver = js ''u2'', m_text = js ''x'', m_seen = False, m_createdAt = 30\<rparr>,
       \<lparr>m_id = js ''m4'', m_chatId = js ''c1'', m_sender = js ''u1'', m_receiver = js ''u2'', m_text = js ''x'', m_seen = False, m_createdAt = 40\<rparr>,
       \<lparr>m_id = js ''m5'', m_chatId = js ''c1'', m_sender = js ''u1'', m_receiver = js ''u2'', m_text = js ''x'', m_seen = False, m_createdAt = 50\<rparr>]
     @ history_page (js ''c1'') None (Some 2)
      [\<lparr>m_id = js ''m1'', m_chatId = js ''c1'', m_sender = js ''u1'', m_receiver = js ''u2'', m_text = js ''x'', m_seen = False, m_createdAt = 10\<rparr>,
       \<lparr>m_id = js ''m2'', m_chatId = js ''c1'', m_sender = js ''u1'', m_receiver = js ''u2'', m_text = js ''x'', m_seen = False, m_createdAt = 20\<rparr>,
       \<lparr>m_id = js ''m3'', m_chatId = js ''c1'', m_sender = js ''u1'', m_receiver = js ''u2'', m_text = js ''x'', m_seen = False, m_createdAt = 30\<rparr>,
       \<lparr>m_id = js ''m4'', m_chatId = js ''c1'', m_sender = js ''u1'', m_receiver = js ''u2'', m_text = js ''x'', m_seen = False, m_createdAt = 40\<rparr>,
       \<lparr>m_id = js ''m5'', m_chatId = js ''c1'', m_sender = js ''u1'', m_receiver = js ''u2'', m_text = js ''x'', m_seen = False, m_createdAt = 50\<rparr>]
    = [\<lparr>m_id = js ''m2'', m_chatId = js ''c1'', m_sender = js ''u1'', m_receiver = js ''u2'', m_text = js ''x'', m_seen = False, m_createdAt = 20\<rparr>,
       \<lparr>m_id = js ''m3'', m_chatId = js ''c1'', m_sender = js ''u1'', m_receiver = js ''u2'', m_text = js ''x'', m_seen = False, m_createdAt = 30\<rparr>,
       \<lparr>m_id = js ''m4'', m_chatId = js ''c1'', m_sender = js ''u1'', m_receiver = js ''u2'', m_text = js ''x'', m_seen = False, m_createdAt = 40\<rparr>,
       \<lparr>m_id = js ''m5'', m_chatId = js ''c1'', m_sender = js ''u1'', m_receiver = js ''u2'', m_text = js ''x'', m_seen = False, m_createdAt = 50\<rparr>]"
proof -
  have p1: "history_page (js ''c1'') None (Some 2)
      [\<lparr>m_id = js ''m1'', m_chatId = js ''c1'', m_sender = js ''u1'', m_receiver = js ''u2'', m_text = js ''x'', m_seen = False, m_createdAt = 10\<rparr>,
       \<lparr>m_id = js ''m2'', m_chatId = js ''c1'', m_sender = js ''u1'', m_receiver = js ''u2'', m_text = js ''x'', m_seen = False, m_createdAt = 20\<rparr>,
       \<lparr>m_id = js ''m3'', m_chatId = js ''c1'', m_sender = js ''u1'', m_receiver = js ''u2'', m_text = js ''x'', m_seen = False, m_createdAt = 30\<rparr>,
       \<lparr>m_id = js ''m4'', m_chatId = js ''c1'', m_sender = js ''u1'', m_receiver = js ''u2'', m_text = js ''x'', m_seen = False, m_createdAt = 40\<rparr>,
       \<lparr>m_id = js ''m5'', m_chatId = js ''c1'', m_sender = js ''u1'', m_receiver = js ''u2'', m_text = js ''x'', m_seen = False, m_createdAt = 50\<rparr>]
    = [\<lparr>m_id = js ''m4'', m_chatId = js ''c1'', m_sender = js ''u1'', m_receiver = js ''u2'', m_text = js ''x'', m_seen = False, m_createdAt = 40\<rparr>,
       \<lparr>m_id = js ''m5'', m_chatId = js ''c1'', m_sender = js ''u1'', m_receiver = js ''u2'', m_text = js ''x'', m_seen = False, m_createdAt = 50\<rparr>]"
    by (simp add: history_page_def mongo_limit_def page_size_def sort_createdAt_desc_def
        matches_history_def js_def)
  have dist: "distinct (map m_createdAt (filter (matches_history (js ''c1'') None)
      [\<lparr>m_id = js ''m1'', m_chatId = js ''c1'', m_sender = js ''u1'', m_receiver = js ''u2'', m_text = js ''x'', m_seen = False, m_createdAt = 10\<rparr>,
       \<lparr>m_id = js ''m2'', m_chatId = js ''c1'', m_sender = js ''u1'', m_receiver = js ''u2'', m_text = js ''x'', m_seen = False, m_createdAt = 20\<rparr>,
       \<lparr>m_id = js ''m3'', m_chatId = js ''c1'', m_sender = js ''u1'', m_receiver = js ''u2'', m_text = js ''x'', m_seen = False, m_createdAt = 30\<rparr>,
       \<lparr>m_id = js ''m4'', m_chatId = js ''c1'', m_sender = js ''u1'', m_receiver = js ''u2'', m_text = js ''x'', m_seen = False, m_createdAt = 40\<rparr>,
       \<lparr>m_id = js ''m5'', m_chatId = js ''c1'', m_sender = js ''u1'', m_receiver = js ''u2'', m_text = js ''x'', m_seen = False, m_createdAt = 50\<rparr>]))"
    by (simp add: matches_history_def)
  have top: "rev (take (nat \<bar>page_size (Some 2)\<bar> + nat \<bar>page_size (Some 2)\<bar>)
      (sort_createdAt_desc (filter (matches_history (js ''c1'') None)
      [\<lparr>m_id = js ''m1'', m_chatId = js ''c1'', m_sender = js ''u1'', m_receiver = js ''u2'', m_text = js ''x'', m_seen = False, m_createdAt = 10\<rparr>,
       \<lparr>m_id = js ''m2'', m_chatId = js ''c1'', m_sender = js ''u1'', m_receiver = js ''u2'', m_text = js ''x'', m_seen = False, m_createdAt = 20\<rparr>,
       \<lparr>m_id = js ''m3'', m_chatId = js ''c1'', m_sender = js ''u1'', m_receiver = js ''u2'', m_text = js ''x'', m_seen = False, m_createdAt = 30\<rparr>,
       \<lparr>m_id = js ''m4'', m_chatId = js ''c1'', m_sender = js ''u1'', m_receiver = js ''u2'', m_text = js ''x'', m_seen = False, m_createdAt = 40\<rparr>,
       \<lparr>m_id = js ''m5'', m_chatId = js ''c1'', m_sender = js ''u1'', m_receiver = js ''u2'', m_text = js ''x'', m_seen = False, m_createdAt = 50\<rparr>])))
    = [\<lparr>m_id = js ''m2'', m_chatId = js ''c1'', m_sender = js ''u1'', m_receiver = js ''u2'', m_text = js ''x'', m_seen = False, m_createdAt = 20\<rparr>,
       \<lparr>m_id = js ''m3'', m_chatId = js ''c1'', m_sender = js ''u1'', m_receiver = js ''u2'', m_text = js ''x'', m_seen = False, m_createdAt = 30\<rparr>,
       \<lparr>m_id = js ''m4'', m_chatId = js ''c1'', m_sender = js ''u1'', m_receiver = js ''u2'', m_text = js ''x'', m_seen = False, m_createdAt = 40\<rparr>,
       \<lparr>m_id = js ''m5'', m_chatId = js ''c1'', m_sender = js ''u1'', m_receiver = js ''u2'', m_text = js ''x'', m_seen = False, m_createdAt = 50\<rparr>]"
    by (simp add: page_size_def sort_createdAt_desc_def matches_history_def)
  show ?thesis
    using history_pagination [where chatId = "js ''c1''" and before = None and limit = "Some 2" and limit' = "Some 2"
      and ms = "[\<lparr>m_id = js ''m1'', m_chatId = js ''c1'', m_sender = js ''u1'', m_receiver = js ''u2'', m_text = js ''x'', m_seen = False, m_createdAt = 10\<rparr>,
       \<lparr>m_id = js ''m2'', m_chatId = js ''c1'', m_sender = js ''u1'', m_receiver = js ''u2'', m_text = js ''x'', m_seen = False, m_createdAt = 20\<rparr>,
       \<lparr>m_id = js ''m3'', m_chatId = js ''c1'', m_sender = js ''u1'', m_receiver = js ''u2'', m_text = js ''x'', m_seen = False, m_createdAt = 30\<rparr>,
       \<lparr>m_id = js ''m4'', m_chatId = js ''c1'', m_sender = js ''u1'', m_receiver = js ''u2'', m_text = js ''x'', m_seen = False, m_createdAt = 40\<rparr>,
       \<lparr>m_id = js ''m5'', m_chatId = js ''c1'', m_sender = js ''u1'', m_receiver = js ''u2'', m_text = js ''x'', m_seen = False, m_createdAt = 50\<rparr>]"]
      p1 dist top
    by simp
qed

text \<open>
  Claim C6 as stated fails twice. With four messages created at instants 1, 2, 2 and 3, the
  page for \<open>limit = 2\<close> holds one of the two messages created at 2 and the message created
  at 3; the next page, asked with \<open>before = 2\<close>, holds only the message created at 1: the
  other message created at 2 is on neither page. And \<open>limit = 0\<close> is answered with all
  four messages, since \<open>Number(limit) || 50\<close> takes 0 for absent.
\<close>

theorem history_pages_counterexample:
  "get_messages \<lparr>env_now = 9, env_newId = [], env_findThrows = False, env_createThrows = False, env_updateThrows = False\<rparr> (js ''c1'')
      \<lparr>q_before = None, q_limit = Some 2\<rparr>
      \<lparr>messages =
      [\<lparr>m_id = js ''m1'', m_chatId = js ''c1'', m_sender = js ''u1'', m_receiver = js ''u2'', m_text = js ''a'', m_seen = False, m_createdAt = 1\<rparr>,
       \<lparr>m_id = js ''m2'', m_chatId = js ''c1'', m_sender = js ''u1'', m_receiver = js ''u2'', m_text = js ''b'', m_seen = False, m_createdAt = 2\<rparr>,
       \<lparr>m_id = js ''m3'', m_chatId = js ''c1'', m_sender = js ''u1'', m_receiver = js ''u2'', m_text = js ''c'', m_seen = False, m_createdAt = 2\<rparr>,
       \<lparr>m_id = js ''m4'', m_chatId = js ''c1'', m_sender = js ''u1'', m_receiver = js ''u2'', m_text = js ''d'', m_seen = False, m_createdAt = 3\<rparr>],
     chats = [], trace = []\<rparr>
    = Json 200 (MessageList
       [\<lparr>m_id = js ''m2'', m_chatId = js ''c1'', m_sender = js ''u1'', m_receiver = js ''u2'', m_text = js ''b'', m_seen = False, m_createdAt = 2\<rparr>,
        \<lparr>m_id = js ''m4'', m_chatId = js ''c1'', m_sender = js ''u1'', m_receiver = js ''u2'', m_text = js ''d'', m_seen = False, m_createdAt = 3\<rparr>])
   \<and> get_messages \<lparr>env_now = 9, env_newId = [], env_findThrows = False, env_createThrows = False, env_updateThrows = False\<rparr> (js ''c1'')
      \<lparr>q_before = Some (Date 2), q_limit = Some 2\<rparr>
      \<lparr>messages =
      [\<lparr>m_id = js ''m1'', m_chatId = js ''c1'', m_sender = js ''u1'', m_receiver = js ''u2'', m_text = js ''a'', m_seen = False, m_createdAt = 1\<rparr>,
       \<lparr>m_id = js ''m2'', m_chatId = js ''c1'', m_sender = js ''u1'', m_receiver = js ''u2'', m_text = js ''b'', m_seen = False, m_createdAt = 2\<rparr>,
       \<lparr>m_id = js ''m3'', m_chatId = js ''c1'', m_sender = js ''u1'', m_receiver = js ''u2'', m_text = js ''c'', m_seen = False, m_createdAt = 2\<rparr>,
       \<lparr>m_id = js ''m4'', m_chatId = js ''c1'', m_sender = js ''u1'', m_receiver = js ''u2'', m_text = js ''d'', m_seen = False, m_createdAt = 3\<rparr>],
     chats = [], trace = []\<rparr>
    = Json 200 (MessageList
       [\<lparr>m_id = js ''m1'', m_chatId = js ''c1'', m_sender = js ''u1'', m_receiver = js ''u2'', m_text = js ''a'', m_seen = False, m_createdAt = 1\<rparr>])
   \<and> get_messages \<lparr>env_now = 9, env_newId = [], env_findThrows = False, env_createThrows = False, env_updateThrows = False\<rparr> (js ''c1'')
      \<lparr>q_before = None, q_limit = Some 0\<rparr>
      \<lparr>messages =
      [\<lparr>m_id = js ''m1'', m_chatId = js ''c1'', m_sender = js ''u1'', m_receiver = js ''u2'', m_text = js ''a'', m_seen = False, m_createdAt = 1\<rparr>,
       \<lparr>m_id = js ''m2'', m_chatId = js ''c1'', m_sender = js ''u1'', m_receiver = js ''u2'', m_text = js ''b'', m_seen = False, m_createdAt = 2\<rparr>,
       \<lparr>m_id = js ''m3'', m_chatId = js ''c1'', m_sender = js ''u1'', m_receiver = js ''u2'', m_text = js ''c'', m_seen = False, m_createdAt = 2\<rparr>,
       \<lparr>m_id = js ''m4'', m_chatId = js ''c1'', m_sender = js ''u1'', m_receiver = js ''u2'', m_text = js ''d'', m_seen = False, m_createdAt = 3\<rparr>],
     chats = [], trace = []\<rparr>
    = Json 200 (MessageList
       [\<lparr>m_id = js ''m1'', m_chatId = js ''c1'', m_sender = js ''u1'', m_receiver = js ''u2'', m_text = js ''a'', m_seen = False, m_createdAt = 1\<rparr>,
       \<lparr>m_id = js ''m3'', m_chatId = js ''c1'', m_sender = js ''u1'', m_receiver = js ''u2'', m_text = js ''c'', m_seen = False, m_createdAt = 2\<rparr>,
       \<lparr>m_id = js ''m2'', m_chatId = js ''c1'', m_sender = js ''u1'', m_receiver = js ''u2'', m_text = js ''b'', m_seen = False, m_createdAt = 2\<rparr>,
       \<lparr>m_id = js ''m4'', m_chatId = js ''c1'', m_sender = js ''u1'', m_receiver = js ''u2'', m_text = js ''d'', m_seen = False, m_createdAt = 3\<rparr>])"
  by (simp add: get_messages_def history_page_def mongo_limit_def page_size_def
      sort_createdAt_desc_def matches_history_def js_def)

end
